theory Spec2Isabelle
  imports Main "HOL-Library.Char_ord" "HOL-Library.List_Lexorder"
begin

section \<open>Values, dictionaries and exceptions\<close>

text \<open>
  The script \<^verbatim>\<open>aws_reservations_report.py\<close> handles dynamically typed values that
  it receives from the provider, copies into its own dictionaries, formats and prints.
  A timestamp is a \<^verbatim>\<open>datetime\<close> object; the script reads it only through
  \<^verbatim>\<open>strftime\<close> and through string formatting.
\<close>

record datetime =
  dt_year :: nat
  dt_month :: nat
  dt_day :: nat
  dt_hour :: nat
  dt_minute :: nat
  dt_second :: nat
  dt_microsecond :: nat
  dt_utcoffset :: "int option"

text \<open>
  The values of the script. The script never computes with a float: it copies it, prints
  it and tests its truth value, so a float is carried by its \<^verbatim>\<open>repr\<close> text.
\<close>

datatype pyval =
    PNone
  | PBool bool
  | PInt int
  | PFloat string
  | PStr string
  | PDatetime datetime

text \<open>
  A Python dictionary keeps its keys in insertion order; it is an association list with
  one entry for each key. Storing under a key that is present replaces the value and keeps
  the position of the key.
\<close>

type_synonym dict = "(string \<times> pyval) list"

text \<open>
  The exceptions that reach the script. \<open>ClientError code text\<close> is botocore's
  \<^verbatim>\<open>ClientError\<close> with \<^verbatim>\<open>e.response['Error']['Code']\<close> and \<^verbatim>\<open>str(e)\<close>;
  \<open>NoCredentialsError\<close> is the second class the script imports from botocore;
  \<open>OtherError\<close> is any other exception class, with its text.
\<close>

datatype exc =
    ClientError string string
  | NoCredentialsError
  | KeyError string
  | AttributeError string
  | OtherError string

fun dict_set :: "dict \<Rightarrow> string \<Rightarrow> pyval \<Rightarrow> dict" where
  "dict_set [] k v = [(k, v)]"
| "dict_set ((k', v') # d) k v =
     (if k' = k then (k, v) # d else (k', v') # dict_set d k v)"

definition dict_get :: "dict \<Rightarrow> string \<Rightarrow> pyval option" where
  "dict_get d k = map_of d k"

text \<open>\<^verbatim>\<open>d[k]\<close> raises \<^verbatim>\<open>KeyError\<close> on a missing key; \<^verbatim>\<open>d.get(k, default)\<close> does not.\<close>

definition subscript :: "dict \<Rightarrow> string \<Rightarrow> exc + pyval" where
  "subscript d k = (case dict_get d k of None \<Rightarrow> Inl (KeyError k) | Some v \<Rightarrow> Inr v)"

definition get_default :: "dict \<Rightarrow> string \<Rightarrow> pyval \<Rightarrow> pyval" where
  "get_default d k dflt = (case dict_get d k of None \<Rightarrow> dflt | Some v \<Rightarrow> v)"

text \<open>
  A dictionary display \<^verbatim>\<open>{k1: e1, k2: e2, ...}\<close> evaluates its entries from left to right
  and stores each in turn: the first entry that raises ends the evaluation, and a key
  written twice keeps its first position and its last value.
\<close>

fun dict_display :: "(string \<times> (exc + pyval)) list \<Rightarrow> dict \<Rightarrow> exc + dict" where
  "dict_display [] acc = Inr acc"
| "dict_display ((k, e) # es) acc =
     (case e of Inl x \<Rightarrow> Inl x | Inr v \<Rightarrow> dict_display es (dict_set acc k v))"

section \<open>Text of numbers and timestamps\<close>

definition digit :: "nat \<Rightarrow> char" where
  "digit n = ''0123456789'' ! (n mod 10)"

fun str_nat :: "nat \<Rightarrow> string" where
  "str_nat n = (if n < 10 then [digit n] else str_nat (n div 10) @ [digit (n mod 10)])"

declare str_nat.simps [simp del]

definition str_int :: "int \<Rightarrow> string" where
  "str_int i = (if i < 0 then CHR ''-'' # str_nat (nat (- i)) else str_nat (nat i))"

definition zfill :: "nat \<Rightarrow> string \<Rightarrow> string" where
  "zfill w s = replicate (w - length s) CHR ''0'' @ s"

text \<open>
  \<^verbatim>\<open>strftime\<close> belongs to the Python library, which hands the format to the C library
  of the platform. The model has the six directives the script uses, as CPython on glibc
  renders them: \<^verbatim>\<open>%Y\<close> is the year in decimal with no padding, so a year below 1000
  has fewer than four digits, and \<^verbatim>\<open>%m %d %H %M %S\<close> are zero-padded to two digits.
  Every other character of the format is copied.
\<close>

definition directive :: "datetime \<Rightarrow> char \<Rightarrow> string" where
  "directive d c =
     (if c = CHR ''Y'' then str_nat (dt_year d)
      else if c = CHR ''m'' then zfill 2 (str_nat (dt_month d))
      else if c = CHR ''d'' then zfill 2 (str_nat (dt_day d))
      else if c = CHR ''H'' then zfill 2 (str_nat (dt_hour d))
      else if c = CHR ''M'' then zfill 2 (str_nat (dt_minute d))
      else if c = CHR ''S'' then zfill 2 (str_nat (dt_second d))
      else [CHR ''%'', c])"

fun strftime :: "datetime \<Rightarrow> string \<Rightarrow> string" where
  "strftime d [] = []"
| "strftime d [c] = [c]"
| "strftime d (c # e # cs) =
     (if c = CHR ''%'' then directive d e @ strftime d cs else c # strftime d (e # cs))"

text \<open>
  \<^verbatim>\<open>str(dt)\<close> of a timestamp is its ISO form with a space, which Python formats itself:
  the year has four digits, the microseconds appear when they are not zero, the offset
  (in minutes east of UTC) when the timestamp has one.
\<close>

definition str_offset :: "int \<Rightarrow> string" where
  "str_offset m =
     (if m < 0 then CHR ''-'' else CHR ''+'') #
       zfill 2 (str_nat (nat \<bar>m\<bar> div 60)) @ '':'' @ zfill 2 (str_nat (nat \<bar>m\<bar> mod 60))"

definition str_datetime :: "datetime \<Rightarrow> string" where
  "str_datetime d =
     zfill 4 (str_nat (dt_year d)) @ ''-'' @ zfill 2 (str_nat (dt_month d)) @ ''-''
     @ zfill 2 (str_nat (dt_day d)) @ '' '' @ zfill 2 (str_nat (dt_hour d)) @ '':''
     @ zfill 2 (str_nat (dt_minute d)) @ '':'' @ zfill 2 (str_nat (dt_second d))
     @ (if dt_microsecond d = 0 then [] else CHR ''.'' # zfill 6 (str_nat (dt_microsecond d)))
     @ (case dt_utcoffset d of None \<Rightarrow> [] | Some m \<Rightarrow> str_offset m)"

text \<open>\<^verbatim>\<open>str(v)\<close>, which an f-string applies to each value it interpolates.\<close>

fun py_str :: "pyval \<Rightarrow> string" where
  "py_str PNone = ''None''"
| "py_str (PBool b) = (if b then ''True'' else ''False'')"
| "py_str (PInt i) = str_int i"
| "py_str (PFloat r) = r"
| "py_str (PStr s) = s"
| "py_str (PDatetime d) = str_datetime d"

text \<open>The truth value of \<^verbatim>\<open>if v:\<close>. A timestamp is always true.\<close>

fun truthy :: "pyval \<Rightarrow> bool" where
  "truthy PNone = False"
| "truthy (PBool b) = b"
| "truthy (PInt i) = (i \<noteq> 0)"
| "truthy (PFloat r) = (r \<noteq> ''0.0'' \<and> r \<noteq> ''-0.0'')"
| "truthy (PStr s) = (s \<noteq> [])"
| "truthy (PDatetime d) = True"

section \<open>format_datetime\<close>

text \<open>
  \<^verbatim>\<open>
  def format_datetime(dt):
      if dt:
          if isinstance(dt, str):
              return dt
          return dt.strftime('%Y-%m-%d %H:%M:%S UTC')
      return 'N/A'
  \<close>
  A true value that is neither text nor a timestamp has no \<^verbatim>\<open>strftime\<close>: the call
  raises \<^verbatim>\<open>AttributeError\<close>.
\<close>

definition format_datetime :: "pyval \<Rightarrow> exc + pyval" where
  "format_datetime dt =
     (if truthy dt then
        (case dt of
           PStr s \<Rightarrow> Inr dt
         | PDatetime d \<Rightarrow> Inr (PStr (strftime d ''%Y-%m-%d %H:%M:%S UTC''))
         | _ \<Rightarrow> Inl (AttributeError ''strftime''))
      else Inr (PStr ''N/A''))"

section \<open>The provider and the console\<close>

text \<open>
  The script reaches the provider through four listing operations. A \<open>session\<close> fixes
  what each operation answers during one run: an exception, or a response. A response is
  a dictionary with one list member (\<^verbatim>\<open>Regions\<close>, \<^verbatim>\<open>ReservedInstances\<close>,
  \<^verbatim>\<open>ReservedDBInstances\<close>, \<^verbatim>\<open>savingsPlans\<close>); \<open>None\<close> is a response without
  that member. The members of a region description are text.
\<close>

type_synonym 'a outcome = "exc + 'a list option"

record session =
  describe_regions :: "(string \<times> string) list outcome"
  describe_reserved_instances :: "string \<Rightarrow> dict outcome"
  describe_reserved_db_instances :: "string \<Rightarrow> dict outcome"
  describe_savings_plans :: "string \<Rightarrow> dict outcome"

datatype call =
    DescribeRegions
  | DescribeReservedInstances string
  | DescribeReservedDBInstances string
  | DescribeSavingsPlans string

text \<open>
  The effects of a run: the texts given to \<^verbatim>\<open>print\<close>, one entry for each call of
  \<^verbatim>\<open>print\<close>, and the listing operations issued, in order.
\<close>

record state =
  stdout :: "string list"
  calls :: "call list"

definition print :: "string \<Rightarrow> state \<Rightarrow> state" where
  "print s st = st\<lparr>stdout := stdout st @ [s]\<rparr>"

definition issue :: "call \<Rightarrow> state \<Rightarrow> state" where
  "issue c st = st\<lparr>calls := calls st @ [c]\<rparr>"

text \<open>\<^verbatim>\<open>response[member]\<close>, a \<^verbatim>\<open>KeyError\<close> when the response has no such member.\<close>

definition member :: "string \<Rightarrow> 'a outcome \<Rightarrow> exc + 'a list" where
  "member k out =
     (case out of
        Inl e \<Rightarrow> Inl e
      | Inr None \<Rightarrow> Inl (KeyError k)
      | Inr (Some xs) \<Rightarrow> Inr xs)"

text \<open>
  The loop \<^verbatim>\<open>for x in xs: result.append(f(x))\<close>, which ends at the first exception.
\<close>

fun append_each :: "('a \<Rightarrow> exc + 'b) \<Rightarrow> 'a list \<Rightarrow> 'b list \<Rightarrow> exc + 'b list" where
  "append_each f [] acc = Inr acc"
| "append_each f (x # xs) acc =
     (case f x of Inl e \<Rightarrow> Inl e | Inr y \<Rightarrow> append_each f xs (acc @ [y]))"

section \<open>get_all_regions\<close>

definition fallback_regions :: "string list" where
  "fallback_regions =
     [''us-east-1'', ''us-east-2'', ''us-west-1'', ''us-west-2'',
      ''eu-west-1'', ''eu-west-2'', ''eu-west-3'', ''eu-central-1'',
      ''ap-southeast-1'', ''ap-southeast-2'', ''ap-northeast-1'', ''ap-northeast-2'',
      ''ap-south-1'', ''ca-central-1'', ''sa-east-1'']"

definition region_name :: "(string \<times> string) list \<Rightarrow> exc + string" where
  "region_name region =
     (case map_of region ''RegionName'' of
        None \<Rightarrow> Inl (KeyError ''RegionName'')
      | Some n \<Rightarrow> Inr n)"

text \<open>
  \<^verbatim>\<open>
  def get_all_regions(session):
      try:
          ec2 = session.client('ec2', region_name='us-east-1')
          response = ec2.describe_regions()
          return [region['RegionName'] for region in response['Regions']]
      except ClientError as e:
          print(f"Error getting regions: {e}")
          return [ ...fifteen regions... ]
  \<close>
  Only \<^verbatim>\<open>ClientError\<close> is caught; any other exception leaves the function.
\<close>

definition get_all_regions :: "session \<Rightarrow> state \<Rightarrow> (exc + string list) \<times> state" where
  "get_all_regions session st =
     (let st1 = issue DescribeRegions st in
      case member ''Regions'' (describe_regions session) of
        Inl (ClientError code text) \<Rightarrow>
          (Inr fallback_regions, print (''Error getting regions: '' @ text) st1)
      | Inl e \<Rightarrow> (Inl e, st1)
      | Inr regions \<Rightarrow> (append_each region_name regions [], st1))"

section \<open>The three fetchers\<close>

text \<open>
  The handler shared by the three fetchers:
  \<^verbatim>\<open>
  except ClientError as e:
      if e.response['Error']['Code'] not in ['UnauthorizedOperation', 'AccessDenied']:
          print(f"Error retrieving ... in {region}: {e}")
      return []
  \<close>
  \<open>what\<close> is the name of the category in the printed line.
\<close>

definition handle_client_error ::
    "string \<Rightarrow> string \<Rightarrow> exc + dict list \<Rightarrow> state \<Rightarrow> (exc + dict list) \<times> state" where
  "handle_client_error what region body st =
     (case body of
        Inl (ClientError code text) \<Rightarrow>
          (Inr [],
           if code \<notin> set [''UnauthorizedOperation'', ''AccessDenied'']
           then print (''Error retrieving '' @ what @ '' in '' @ region @ '': '' @ text) st
           else st)
      | Inl e \<Rightarrow> (Inl e, st)
      | Inr rs \<Rightarrow> (Inr rs, st))"

text \<open>An f-string over one subscripted value, \<^verbatim>\<open>f"{d[k]} suffix"\<close>.\<close>

definition fmt1 :: "dict \<Rightarrow> string \<Rightarrow> string \<Rightarrow> exc + pyval" where
  "fmt1 d k suffix =
     (case subscript d k of Inl e \<Rightarrow> Inl e | Inr v \<Rightarrow> Inr (PStr (py_str v @ suffix)))"

text \<open>The dictionary appended for one item of \<^verbatim>\<open>response['ReservedInstances']\<close>.\<close>

definition ec2_entry :: "string \<Rightarrow> dict \<Rightarrow> exc + dict" where
  "ec2_entry region ri =
     dict_display
       [(''Type'', Inr (PStr ''EC2 Reserved Instance'')),
        (''Region'', Inr (PStr region)),
        (''ReservedInstancesId'', subscript ri ''ReservedInstancesId''),
        (''InstanceType'', subscript ri ''InstanceType''),
        (''AvailabilityZone'', Inr (get_default ri ''AvailabilityZone'' (PStr ''N/A''))),
        (''State'', subscript ri ''State''),
        (''Start'', format_datetime (get_default ri ''Start'' PNone)),
        (''End'', format_datetime (get_default ri ''End'' PNone)),
        (''Duration'', fmt1 ri ''Duration'' '' seconds''),
        (''InstanceCount'', subscript ri ''InstanceCount''),
        (''ProductDescription'', subscript ri ''ProductDescription''),
        (''InstanceTenancy'', subscript ri ''InstanceTenancy''),
        (''OfferingClass'', subscript ri ''OfferingClass''),
        (''OfferingType'', subscript ri ''OfferingType''),
        (''FixedPrice'', Inr (get_default ri ''FixedPrice'' (PInt 0))),
        (''UsagePrice'', Inr (get_default ri ''UsagePrice'' (PInt 0))),
        (''CurrencyCode'', Inr (get_default ri ''CurrencyCode'' (PStr ''USD'')))]
       []"

definition get_ec2_reserved_instances ::
    "session \<Rightarrow> string \<Rightarrow> state \<Rightarrow> (exc + dict list) \<times> state" where
  "get_ec2_reserved_instances session region st =
     handle_client_error ''EC2 Reserved Instances'' region
       (case member ''ReservedInstances'' (describe_reserved_instances session region) of
          Inl e \<Rightarrow> Inl e
        | Inr items \<Rightarrow> append_each (ec2_entry region) items [])
       (issue (DescribeReservedInstances region) st)"

text \<open>The dictionary appended for one item of \<^verbatim>\<open>response['ReservedDBInstances']\<close>.\<close>

definition rds_entry :: "string \<Rightarrow> dict \<Rightarrow> exc + dict" where
  "rds_entry region ri =
     dict_display
       [(''Type'', Inr (PStr ''RDS Reserved Instance'')),
        (''Region'', Inr (PStr region)),
        (''ReservedDBInstanceId'', subscript ri ''ReservedDBInstanceId''),
        (''DBInstanceClass'', subscript ri ''DBInstanceClass''),
        (''Engine'', subscript ri ''ProductDescription''),
        (''State'', subscript ri ''State''),
        (''Start'', format_datetime (get_default ri ''StartTime'' PNone)),
        (''Duration'', fmt1 ri ''Duration'' '' seconds''),
        (''DBInstanceCount'', subscript ri ''DBInstanceCount''),
        (''OfferingType'', subscript ri ''OfferingType''),
        (''MultiAZ'', subscript ri ''MultiAZ''),
        (''FixedPrice'', Inr (get_default ri ''FixedPrice'' (PInt 0))),
        (''UsagePrice'', Inr (get_default ri ''UsagePrice'' (PInt 0))),
        (''CurrencyCode'', Inr (get_default ri ''CurrencyCode'' (PStr ''USD'')))]
       []"

definition get_rds_reserved_instances ::
    "session \<Rightarrow> string \<Rightarrow> state \<Rightarrow> (exc + dict list) \<times> state" where
  "get_rds_reserved_instances session region st =
     handle_client_error ''RDS Reserved Instances'' region
       (case member ''ReservedDBInstances'' (describe_reserved_db_instances session region) of
          Inl e \<Rightarrow> Inl e
        | Inr items \<Rightarrow> append_each (rds_entry region) items [])
       (issue (DescribeReservedDBInstances region) st)"

text \<open>
  The dictionary appended for one item of \<^verbatim>\<open>response['savingsPlans']\<close>. The display
  of the source writes the key \<^verbatim>\<open>'Region'\<close> twice: second, with \<^verbatim>\<open>region\<close>, and last,
  with \<^verbatim>\<open>sp.get('region', 'N/A')\<close>.
\<close>

definition commitment :: "dict \<Rightarrow> exc + pyval" where
  "commitment sp =
     (case subscript sp ''commitment'' of
        Inl e \<Rightarrow> Inl e
      | Inr c \<Rightarrow>
          (case subscript sp ''currency'' of
             Inl e \<Rightarrow> Inl e
           | Inr u \<Rightarrow> Inr (PStr (py_str c @ '' '' @ py_str u @ ''/hour''))))"

definition sp_entry :: "string \<Rightarrow> dict \<Rightarrow> exc + dict" where
  "sp_entry region sp =
     dict_display
       [(''Type'', Inr (PStr ''Savings Plan'')),
        (''Region'', Inr (PStr region)),
        (''SavingsPlanId'', subscript sp ''savingsPlanId''),
        (''SavingsPlanArn'', subscript sp ''savingsPlanArn''),
        (''Description'', Inr (get_default sp ''description'' (PStr ''N/A''))),
        (''State'', subscript sp ''state''),
        (''PlanType'', subscript sp ''savingsPlanType''),
        (''PaymentOption'', subscript sp ''paymentOption''),
        (''Start'', format_datetime (get_default sp ''start'' PNone)),
        (''End'', format_datetime (get_default sp ''end'' PNone)),
        (''Commitment'', commitment sp),
        (''Currency'', subscript sp ''currency''),
        (''UpfrontPayment'', Inr (get_default sp ''upfrontPaymentAmount'' (PStr ''N/A''))),
        (''RecurringPayment'', Inr (get_default sp ''recurringPaymentAmount'' (PStr ''N/A''))),
        (''TermDurationInSeconds'', Inr (get_default sp ''termDurationInSeconds'' (PStr ''N/A''))),
        (''EC2InstanceFamily'', Inr (get_default sp ''ec2InstanceFamily'' (PStr ''N/A''))),
        (''Region'', Inr (get_default sp ''region'' (PStr ''N/A'')))]
       []"

definition get_savings_plans ::
    "session \<Rightarrow> string \<Rightarrow> state \<Rightarrow> (exc + dict list) \<times> state" where
  "get_savings_plans session region st =
     handle_client_error ''Savings Plans'' region
       (case member ''savingsPlans'' (describe_savings_plans session region) of
          Inl e \<Rightarrow> Inl e
        | Inr items \<Rightarrow> append_each (sp_entry region) items [])
       (issue (DescribeSavingsPlans region) st)"

section \<open>The aggregation loop and the region index of main\<close>

definition banner :: string where
  "banner = CHR 0x0A # replicate 80 CHR ''=''"

text \<open>
  The loop of \<^verbatim>\<open>main\<close> over the regions:
  \<^verbatim>\<open>
  all_reservations = []
  regions_with_data = set()
  for region in regions:
      print(f"\nChecking region: {region}")
      region_reservations = []
      ec2_reservations = get_ec2_reserved_instances(session, region)
      region_reservations.extend(ec2_reservations)
      rds_reservations = get_rds_reserved_instances(session, region)
      region_reservations.extend(rds_reservations)
      savings_plans = get_savings_plans(session, region)
      region_reservations.extend(savings_plans)
      if region_reservations:
          regions_with_data.add(region)
          print(f"  Found {len(region_reservations)} reservations in {region}")
          all_reservations.extend(region_reservations)
      else:
          print(f"  No reservations found in {region}")
  \<close>
  The two accumulators are arguments; an exception that leaves a fetcher leaves the loop.
\<close>

fun main_collect ::
    "session \<Rightarrow> string list \<Rightarrow> dict list \<Rightarrow> string set \<Rightarrow> state
      \<Rightarrow> (exc + dict list \<times> string set) \<times> state" where
  "main_collect session [] all_reservations regions_with_data st =
     (Inr (all_reservations, regions_with_data), st)"
| "main_collect session (region # regions) all_reservations regions_with_data st =
     (case get_ec2_reserved_instances session region
             (print (CHR 0x0A # ''Checking region: '' @ region) st) of
        (Inl e, st1) \<Rightarrow> (Inl e, st1)
      | (Inr ec2_reservations, st1) \<Rightarrow>
     (case get_rds_reserved_instances session region st1 of
        (Inl e, st2) \<Rightarrow> (Inl e, st2)
      | (Inr rds_reservations, st2) \<Rightarrow>
     (case get_savings_plans session region st2 of
        (Inl e, st3) \<Rightarrow> (Inl e, st3)
      | (Inr savings_plans, st3) \<Rightarrow>
          (let region_reservations = ([] @ ec2_reservations) @ rds_reservations @ savings_plans
           in if region_reservations \<noteq> [] then
                main_collect session regions
                  (all_reservations @ region_reservations)
                  (insert region regions_with_data)
                  (print (''  Found '' @ str_nat (length region_reservations)
                            @ '' reservations in '' @ region) st3)
              else
                main_collect session regions all_reservations regions_with_data
                  (print (''  No reservations found in '' @ region) st3)))))"

text \<open>
  The region index of \<^verbatim>\<open>main\<close>:
  \<^verbatim>\<open>
  print(f"\n" + "="*80)
  print("REGIONS WITH RESERVATIONS")
  print("="*80)
  if regions_with_data:
      for region in sorted(regions_with_data):
          region_count = len([r for r in all_reservations if r.get('Region') == region])
          print(f"  {region}: {region_count} reservations")
  else:
      print("No regions found with reservations")
  \<close>
  \<^verbatim>\<open>sorted\<close> orders text by code points, which is the lexicographic order of the
  characters.
\<close>

definition region_count :: "dict list \<Rightarrow> string \<Rightarrow> nat" where
  "region_count all_reservations region =
     length (filter (\<lambda>r. dict_get r ''Region'' = Some (PStr region)) all_reservations)"

definition index_line :: "dict list \<Rightarrow> string \<Rightarrow> string" where
  "index_line all_reservations region =
     ''  '' @ region @ '': '' @ str_nat (region_count all_reservations region)
       @ '' reservations''"

definition main_region_index :: "dict list \<Rightarrow> string set \<Rightarrow> state \<Rightarrow> state" where
  "main_region_index all_reservations regions_with_data st =
     (let st3 = print (replicate 80 CHR ''='')
                  (print ''REGIONS WITH RESERVATIONS'' (print banner st))
      in if regions_with_data \<noteq> {} then
           fold (\<lambda>region. print (index_line all_reservations region))
             (sorted_list_of_set regions_with_data) st3
         else print ''No regions found with reservations'' st3)"

section \<open>print_summary\<close>

text \<open>
  \<^verbatim>\<open>len([r for r in all_reservations if r['Type'] == t])\<close>: the subscript raises
  \<^verbatim>\<open>KeyError\<close> at the first dictionary without a \<^verbatim>\<open>Type\<close>.
\<close>

fun type_count :: "string \<Rightarrow> dict list \<Rightarrow> exc + nat" where
  "type_count t [] = Inr 0"
| "type_count t (r # rs) =
     (case subscript r ''Type'' of
        Inl e \<Rightarrow> Inl e
      | Inr v \<Rightarrow>
          (case type_count t rs of
             Inl e \<Rightarrow> Inl e
           | Inr n \<Rightarrow> Inr (if v = PStr t then Suc n else n)))"

text \<open>
  \<^verbatim>\<open>
  def print_summary(all_reservations):
      ec2_count = len([r for r in all_reservations if r['Type'] == 'EC2 Reserved Instance'])
      rds_count = len([r for r in all_reservations if r['Type'] == 'RDS Reserved Instance'])
      sp_count = len([r for r in all_reservations if r['Type'] == 'Savings Plan'])
      print("\n" + "="*80)
      print("SUMMARY")
      print("="*80)
      print(f"EC2 Reserved Instances: {ec2_count}")
      print(f"RDS Reserved Instances: {rds_count}")
      print(f"Savings Plans: {sp_count}")
      print(f"Total Reservations: {len(all_reservations)}")
  \<close>
\<close>

definition summary_lines :: "nat \<Rightarrow> nat \<Rightarrow> nat \<Rightarrow> nat \<Rightarrow> string list" where
  "summary_lines ec2_count rds_count sp_count n =
     [banner, ''SUMMARY'', replicate 80 CHR ''='',
      ''EC2 Reserved Instances: '' @ str_nat ec2_count,
      ''RDS Reserved Instances: '' @ str_nat rds_count,
      ''Savings Plans: '' @ str_nat sp_count,
      ''Total Reservations: '' @ str_nat n]"

definition print_summary :: "dict list \<Rightarrow> state \<Rightarrow> (exc + unit) \<times> state" where
  "print_summary all_reservations st =
     (case type_count ''EC2 Reserved Instance'' all_reservations of
        Inl e \<Rightarrow> (Inl e, st)
      | Inr ec2_count \<Rightarrow>
     (case type_count ''RDS Reserved Instance'' all_reservations of
        Inl e \<Rightarrow> (Inl e, st)
      | Inr rds_count \<Rightarrow>
     (case type_count ''Savings Plan'' all_reservations of
        Inl e \<Rightarrow> (Inl e, st)
      | Inr sp_count \<Rightarrow>
          (Inr (),
           fold print
             (summary_lines ec2_count rds_count sp_count (length all_reservations)) st))))"

section \<open>save_to_json and the JSON text of the report\<close>

text \<open>
  Modelled from the spec: \<^verbatim>\<open>save_to_json\<close> hands the aggregated list to \<^verbatim>\<open>json.dump\<close>,
  and the specification compares the list with what a parser reads back from the file.
  The encoder and the decoder belong to the Python library, not to this repository; they
  are modelled here from the library's documentation, for the values of \<open>pyval\<close> and for
  texts whose characters are the 256 characters of \<open>char\<close>, read as code points.
\<close>

definition is_digit :: "char \<Rightarrow> bool" where
  "is_digit c = (c \<in> set ''0123456789'')"

text \<open>
  The number that a text of decimal digits denotes, and whether a text is made of
  decimal digits only.
\<close>

definition read_nat :: "string \<Rightarrow> nat" where
  "read_nat s = foldl (\<lambda>a c. 10 * a + (of_char c - 48)) 0 s"

definition decimal :: "string \<Rightarrow> bool" where
  "decimal s = (s \<noteq> [] \<and> list_all is_digit s)"

subsection \<open>The encoder: json.dump(all_reservations, f, indent=2, default=str)\<close>

definition quote :: char where
  "quote = CHR 0x22"

definition backslash :: char where
  "backslash = CHR 0x5C"

definition hexdigit :: "nat \<Rightarrow> char" where
  "hexdigit n = ''0123456789abcdef'' ! (n mod 16)"

text \<open>
  With \<^verbatim>\<open>ensure_ascii\<close>, which is the default, a text is written between double quotes;
  the quote, the backslash and five control characters have a two-character escape, the
  other characters from the space to the tilde are written as they are, and every other
  character is written as \<^verbatim>\<open>\u\<close> and four hexadecimal digits in lower case.
\<close>

definition escape_char :: "char \<Rightarrow> string" where
  "escape_char c =
     (if c = quote then [backslash, quote]
      else if c = backslash then [backslash, backslash]
      else if c = CHR 0x08 then [backslash, CHR ''b'']
      else if c = CHR 0x0C then [backslash, CHR ''f'']
      else if c = CHR 0x0A then [backslash, CHR ''n'']
      else if c = CHR 0x0D then [backslash, CHR ''r'']
      else if c = CHR 0x09 then [backslash, CHR ''t'']
      else if (0x20::nat) \<le> of_char c \<and> of_char c \<le> (0x7E::nat) then [c]
      else [backslash, CHR ''u'', CHR ''0'', CHR ''0'',
            hexdigit (of_char c div 16), hexdigit (of_char c)])"

definition encode_basestring :: "string \<Rightarrow> string" where
  "encode_basestring s = quote # concat (map escape_char s) @ [quote]"

text \<open>A float is written with its \<^verbatim>\<open>repr\<close>, but for the three values that are not numbers.\<close>

definition encode_float :: "string \<Rightarrow> string" where
  "encode_float r =
     (if r = ''nan'' then ''NaN''
      else if r = ''inf'' then ''Infinity''
      else if r = ''-inf'' then ''-Infinity''
      else r)"

text \<open>
  A value that the encoder cannot write is replaced by \<^verbatim>\<open>default(value)\<close>, here
  \<^verbatim>\<open>str(value)\<close>, and the replacement is written: a timestamp becomes a text.
\<close>

fun encode_value :: "pyval \<Rightarrow> string" where
  "encode_value PNone = ''null''"
| "encode_value (PBool b) = (if b then ''true'' else ''false'')"
| "encode_value (PInt i) = str_int i"
| "encode_value (PFloat r) = encode_float r"
| "encode_value (PStr s) = encode_basestring s"
| "encode_value (PDatetime d) = encode_basestring (py_str (PDatetime d))"

text \<open>
  With \<^verbatim>\<open>indent=2\<close> every item of a list and of a dictionary starts on a line of its own,
  indented by two spaces for each level; the items are separated by a comma, a key and
  its value by a colon and a space. An empty list is \<^verbatim>\<open>[]\<close>, an empty dictionary \<^verbatim>\<open>{}\<close>.
\<close>

definition newline_indent :: "nat \<Rightarrow> string" where
  "newline_indent level = CHR 0x0A # replicate (2 * level) CHR '' ''"

fun encode_items :: "('a \<Rightarrow> string) \<Rightarrow> string \<Rightarrow> 'a list \<Rightarrow> string" where
  "encode_items f sep [] = []"
| "encode_items f sep [x] = f x"
| "encode_items f sep (x # y # ys) = f x @ sep @ encode_items f sep (y # ys)"

definition encode_member :: "string \<times> pyval \<Rightarrow> string" where
  "encode_member m = encode_basestring (fst m) @ '': '' @ encode_value (snd m)"

definition encode_dict :: "nat \<Rightarrow> dict \<Rightarrow> string" where
  "encode_dict level d =
     (if d = [] then ''{}''
      else ''{'' @ newline_indent (level + 1)
           @ encode_items encode_member (CHR '','' # newline_indent (level + 1)) d
           @ newline_indent level @ ''}'')"

text \<open>
  Modelled from the spec: \<^verbatim>\<open>json.dump\<close> of the Python library, which is not part
  of this repository, for a list of dictionaries with \<^verbatim>\<open>indent=2\<close>: one item on
  each line, two spaces deeper at each level, and the empty list and the empty
  dictionary written without a line break.
\<close>

definition encode_list :: "dict list \<Rightarrow> string" where
  "encode_list xs =
     (if xs = [] then ''[]''
      else ''['' @ newline_indent 1
           @ encode_items (encode_dict 1) (CHR '','' # newline_indent 1) xs
           @ newline_indent 0 @ '']'')"

text \<open>
  \<^verbatim>\<open>
  def save_to_json(all_reservations, filename='aws_reservations_report.json'):
      try:
          with open(filename, 'w') as f:
              json.dump(all_reservations, f, indent=2, default=str)
          print(f"\nReport saved to: {filename}")
      except Exception as e:
          print(f"Error saving to JSON: {e}")
  \<close>
  Whether the file can be written is decided outside the script: \<open>failure\<close> is the text of
  the exception when it cannot. The function returns the text of the file it has written.
\<close>

definition save_to_json ::
    "dict list \<Rightarrow> string \<Rightarrow> string option \<Rightarrow> state \<Rightarrow> string option \<times> state" where
  "save_to_json all_reservations filename failure st =
     (case failure of
        None \<Rightarrow>
          (Some (encode_list all_reservations),
           print (CHR 0x0A # ''Report saved to: '' @ filename) st)
      | Some text \<Rightarrow> (None, print (''Error saving to JSON: '' @ text) st))"

subsection \<open>The decoder: json.load\<close>

text \<open>
  What the decoder returns: \<^verbatim>\<open>None\<close>, a truth value, an integer, a float, a text, a list
  or a dictionary. A float is carried by the text it is read from, which for a text
  written by \<^verbatim>\<open>repr\<close> is the \<^verbatim>\<open>repr\<close> of the float.
\<close>

datatype json =
    JNull
  | JBool bool
  | JInt int
  | JFloat string
  | JStr string
  | JArr "json list"
  | JObj "(string \<times> json) list"

text \<open>Storing a member in a dictionary that is being read: a repeated key keeps its place.\<close>

fun json_set :: "(string \<times> json) list \<Rightarrow> string \<Rightarrow> json \<Rightarrow> (string \<times> json) list" where
  "json_set [] k v = [(k, v)]"
| "json_set ((k', v') # d) k v =
     (if k' = k then (k, v) # d else (k', v') # json_set d k v)"

definition is_ws :: "char \<Rightarrow> bool" where
  "is_ws c = (c = CHR '' '' \<or> c = CHR 0x09 \<or> c = CHR 0x0A \<or> c = CHR 0x0D)"

definition skip_ws :: "string \<Rightarrow> string" where
  "skip_ws s = dropWhile is_ws s"

definition starts_with :: "string \<Rightarrow> string \<Rightarrow> bool" where
  "starts_with p s = (take (length p) s = p)"

definition hexval :: "char \<Rightarrow> nat option" where
  "hexval c =
     (if is_digit c then Some (of_char c - 48)
      else if c \<in> set ''abcdef'' then Some (of_char c - 87)
      else if c \<in> set ''ABCDEF'' then Some (of_char c - 55)
      else None)"

definition hex4 :: "char \<Rightarrow> char \<Rightarrow> char \<Rightarrow> char \<Rightarrow> nat option" where
  "hex4 a b c d =
     (case (hexval a, hexval b, hexval c, hexval d) of
        (Some w, Some x, Some y, Some z) \<Rightarrow> Some (((w * 16 + x) * 16 + y) * 16 + z)
      | _ \<Rightarrow> None)"

definition unescape :: "char \<Rightarrow> char option" where
  "unescape e =
     (if e = quote then Some quote
      else if e = backslash then Some backslash
      else if e = CHR ''/'' then Some CHR ''/''
      else if e = CHR ''b'' then Some (CHR 0x08)
      else if e = CHR ''f'' then Some (CHR 0x0C)
      else if e = CHR ''n'' then Some (CHR 0x0A)
      else if e = CHR ''r'' then Some (CHR 0x0D)
      else if e = CHR ''t'' then Some (CHR 0x09)
      else None)"

definition prepend :: "char \<Rightarrow> (string \<times> string) option \<Rightarrow> (string \<times> string) option" where
  "prepend c res = (case res of None \<Rightarrow> None | Some (s, r) \<Rightarrow> Some (c # s, r))"

text \<open>
  The text after an opening quote, up to the closing quote. A control character that is
  not escaped is refused, and so is an escape that the decoder does not know. A
  \<^verbatim>\<open>\u\<close> escape of a code point beyond the characters of \<open>char\<close> is outside this model and
  is refused too.
\<close>

fun scan_string :: "string \<Rightarrow> (string \<times> string) option" where
  "scan_string [] = None"
| "scan_string (c # cs) =
     (if c = quote then Some ([], cs)
      else if c = backslash then
        (case cs of
           [] \<Rightarrow> None
         | e # r \<Rightarrow>
             if e = CHR ''u'' then
               (case r of
                  h1 # h2 # h3 # h4 # r' \<Rightarrow>
                    (case hex4 h1 h2 h3 h4 of
                       None \<Rightarrow> None
                     | Some n \<Rightarrow> if n < 256 then prepend (char_of n) (scan_string r') else None)
                | _ \<Rightarrow> None)
             else
               (case unescape e of
                  None \<Rightarrow> None
                | Some x \<Rightarrow> prepend x (scan_string r)))
      else if of_char c < (0x20::nat) then None
      else prepend c (scan_string cs))"

text \<open>
  A number: an optional minus sign, an integer part without a leading zero, an optional
  fraction and an optional exponent. With a fraction or an exponent it is a float,
  otherwise an integer.
\<close>

definition scan_sign :: "string \<Rightarrow> string \<times> string" where
  "scan_sign s =
     (case s of [] \<Rightarrow> ([], s) | c # r \<Rightarrow> if c = CHR ''-'' then ([c], r) else ([], s))"

definition scan_int_part :: "string \<Rightarrow> (string \<times> string) option" where
  "scan_int_part s =
     (case s of
        [] \<Rightarrow> None
      | c # r \<Rightarrow>
          if c = CHR ''0'' then Some ([c], r)
          else if is_digit c then Some (takeWhile is_digit s, dropWhile is_digit s)
          else None)"

definition scan_fraction :: "string \<Rightarrow> string \<times> string" where
  "scan_fraction s =
     (case s of
        [] \<Rightarrow> ([], s)
      | c # r \<Rightarrow>
          if c = CHR ''.'' \<and> takeWhile is_digit r \<noteq> []
          then (c # takeWhile is_digit r, dropWhile is_digit r)
          else ([], s))"

definition scan_exp_sign :: "string \<Rightarrow> string \<times> string" where
  "scan_exp_sign s =
     (case s of
        [] \<Rightarrow> ([], s)
      | c # r \<Rightarrow> if c = CHR ''+'' \<or> c = CHR ''-'' then ([c], r) else ([], s))"

definition scan_exponent :: "string \<Rightarrow> string \<times> string" where
  "scan_exponent s =
     (case s of
        [] \<Rightarrow> ([], s)
      | c # r \<Rightarrow>
          if (c = CHR ''e'' \<or> c = CHR ''E'')
             \<and> takeWhile is_digit (snd (scan_exp_sign r)) \<noteq> []
          then (c # fst (scan_exp_sign r) @ takeWhile is_digit (snd (scan_exp_sign r)),
                dropWhile is_digit (snd (scan_exp_sign r)))
          else ([], s))"

definition scan_number :: "string \<Rightarrow> (json \<times> string) option" where
  "scan_number s =
     (case scan_int_part (snd (scan_sign s)) of
        None \<Rightarrow> None
      | Some (ip, r1) \<Rightarrow>
          (let sign = fst (scan_sign s);
               frac = fst (scan_fraction r1);
               ex = fst (scan_exponent (snd (scan_fraction r1)));
               rest = snd (scan_exponent (snd (scan_fraction r1)))
           in if frac = [] \<and> ex = []
              then Some (JInt (if sign = [] then int (read_nat ip) else - int (read_nat ip)),
                         rest)
              else Some (JFloat (sign @ ip @ frac @ ex), rest)))"

text \<open>
  Modelled from the spec: \<^verbatim>\<open>json.load\<close> of the Python library, which is not part
  of this repository. One value at the head of a text, and the text that follows it. The recursion into the
  items of a list and the members of a dictionary is bounded by a counter, which
  \<open>json_loads\<close> starts at the length of the text.
\<close>

fun parse_value :: "nat \<Rightarrow> string \<Rightarrow> (json \<times> string) option"
  and parse_array :: "nat \<Rightarrow> string \<Rightarrow> json list \<Rightarrow> (json \<times> string) option"
  and parse_object :: "nat \<Rightarrow> string \<Rightarrow> (string \<times> json) list \<Rightarrow> (json \<times> string) option"
  where
  "parse_value 0 s = None"
| "parse_value (Suc n) s =
     (case s of
        [] \<Rightarrow> None
      | c # r \<Rightarrow>
          if c = quote then
            (case scan_string r of None \<Rightarrow> None | Some (t, r') \<Rightarrow> Some (JStr t, r'))
          else if c = CHR ''{'' then
            (case skip_ws r of
               [] \<Rightarrow> None
             | d # r' \<Rightarrow>
                 if d = CHR ''}'' then Some (JObj [], r')
                 else if d = quote then parse_object n r' []
                 else None)
          else if c = CHR ''['' then
            (case skip_ws r of
               [] \<Rightarrow> None
             | d # r' \<Rightarrow>
                 if d = CHR '']'' then Some (JArr [], r') else parse_array n (d # r') [])
          else if starts_with ''null'' s then Some (JNull, drop 4 s)
          else if starts_with ''true'' s then Some (JBool True, drop 4 s)
          else if starts_with ''false'' s then Some (JBool False, drop 5 s)
          else
            (case scan_number s of
               Some res \<Rightarrow> Some res
             | None \<Rightarrow>
                 if starts_with ''NaN'' s then Some (JFloat ''nan'', drop 3 s)
                 else if starts_with ''Infinity'' s then Some (JFloat ''inf'', drop 8 s)
                 else if starts_with ''-Infinity'' s then Some (JFloat ''-inf'', drop 9 s)
                 else None))"
| "parse_array 0 s acc = None"
| "parse_array (Suc n) s acc =
     (case parse_value n s of
        None \<Rightarrow> None
      | Some (v, r) \<Rightarrow>
          (case skip_ws r of
             [] \<Rightarrow> None
           | d # r' \<Rightarrow>
               if d = CHR '']'' then Some (JArr (acc @ [v]), r')
               else if d = CHR '','' then parse_array n (skip_ws r') (acc @ [v])
               else None))"
| "parse_object 0 s acc = None"
| "parse_object (Suc n) s acc =
     (case scan_string s of
        None \<Rightarrow> None
      | Some (k, r) \<Rightarrow>
          (case skip_ws r of
             [] \<Rightarrow> None
           | d # r1 \<Rightarrow>
               if d \<noteq> CHR '':'' then None
               else
                 (case parse_value n (skip_ws r1) of
                    None \<Rightarrow> None
                  | Some (v, r2) \<Rightarrow>
                      (case skip_ws r2 of
                         [] \<Rightarrow> None
                       | e # r3 \<Rightarrow>
                           if e = CHR ''}'' then Some (JObj (json_set acc k v), r3)
                           else if e = CHR '','' then
                             (case skip_ws r3 of
                                [] \<Rightarrow> None
                              | q # r4 \<Rightarrow>
                                  if q = quote then parse_object n r4 (json_set acc k v)
                                  else None)
                           else None))))"

text \<open>
  \<^verbatim>\<open>json.loads\<close>: white space, one value, white space, and nothing more.
\<close>

definition json_loads :: "string \<Rightarrow> json option" where
  "json_loads s =
     (case parse_value (length s) (skip_ws s) of
        None \<Rightarrow> None
      | Some (v, r) \<Rightarrow> if skip_ws r = [] then Some v else None)"

section \<open>Predicates and example inputs of the properties\<close>

text \<open>
  A \<^verbatim>\<open>datetime\<close> object keeps its fields in these ranges: years 1 to 9999, months
  1 to 12, days 1 to 31, and a time of day.
\<close>

definition valid_datetime :: "datetime \<Rightarrow> bool" where
  "valid_datetime d =
     (1 \<le> dt_year d \<and> dt_year d \<le> 9999 \<and> 1 \<le> dt_month d \<and> dt_month d \<le> 12 \<and>
      1 \<le> dt_day d \<and> dt_day d \<le> 31 \<and> dt_hour d < 24 \<and> dt_minute d < 60 \<and>
      dt_second d < 60)"

text \<open>
  The format of the specification, \<^verbatim>\<open>YYYY-MM-DD HH:MM:SS UTC\<close>, read as a pattern: each
  of the letters Y, M, D, H and S stands for one decimal digit, every other character for
  itself.
\<close>

fun fixed_format :: "string \<Rightarrow> string \<Rightarrow> bool" where
  "fixed_format [] [] = True"
| "fixed_format (p # ps) (c # cs) =
     ((if p \<in> set ''YMDHS'' then is_digit c else c = p) \<and> fixed_format ps cs)"
| "fixed_format _ _ = False"

definition example_datetime :: datetime where
  "example_datetime =
     \<lparr>dt_year = 2024, dt_month = 3, dt_day = 7, dt_hour = 9, dt_minute = 5, dt_second = 0,
      dt_microsecond = 0, dt_utcoffset = Some 0\<rparr>"

definition early_datetime :: datetime where
  "early_datetime =
     \<lparr>dt_year = 999, dt_month = 1, dt_day = 1, dt_hour = 0, dt_minute = 0, dt_second = 0,
      dt_microsecond = 0, dt_utcoffset = None\<rparr>"

text \<open>Whether an exception is caught by \<^verbatim>\<open>except ClientError\<close>.\<close>

fun is_client_error :: "exc \<Rightarrow> bool" where
  "is_client_error (ClientError code text) = True"
| "is_client_error _ = False"

text \<open>Example inputs: one item of each listing, with its required members only.\<close>

definition example_ri :: dict where
  "example_ri =
     [(''ReservedInstancesId'', PStr ''ri-1''), (''InstanceType'', PStr ''t3.micro''),
      (''State'', PStr ''active''), (''Start'', PDatetime example_datetime),
      (''Duration'', PInt 31536000), (''InstanceCount'', PInt 2),
      (''ProductDescription'', PStr ''Linux/UNIX''), (''InstanceTenancy'', PStr ''default''),
      (''OfferingClass'', PStr ''standard''), (''OfferingType'', PStr ''No Upfront'')]"

definition example_db :: dict where
  "example_db =
     [(''ReservedDBInstanceId'', PStr ''db-1''), (''DBInstanceClass'', PStr ''db.t3.micro''),
      (''ProductDescription'', PStr ''mysql''), (''State'', PStr ''active''),
      (''Duration'', PInt 31536000), (''DBInstanceCount'', PInt 1),
      (''OfferingType'', PStr ''No Upfront''), (''MultiAZ'', PBool False)]"

definition example_plan :: dict where
  "example_plan =
     [(''savingsPlanId'', PStr ''sp-1''), (''savingsPlanArn'', PStr ''arn:sp-1''),
      (''state'', PStr ''active''), (''savingsPlanType'', PStr ''Compute''),
      (''paymentOption'', PStr ''No Upfront''), (''commitment'', PStr ''1.5''),
      (''currency'', PStr ''USD'')]"

text \<open>
  A session in which every listing answers, one in which every listing is refused with a
  \<^verbatim>\<open>ClientError\<close>, and one in which no listing reaches the provider, which botocore
  reports with exceptions that are not a \<^verbatim>\<open>ClientError\<close>.
\<close>

definition example_session :: session where
  "example_session =
     \<lparr>describe_regions = Inr (Some [[(''RegionName'', ''us-east-1'')]]),
      describe_reserved_instances = (\<lambda>region. Inr (Some [example_ri])),
      describe_reserved_db_instances = (\<lambda>region. Inr (Some [example_db])),
      describe_savings_plans = (\<lambda>region. Inr (Some [example_plan]))\<rparr>"

definition refused_session :: session where
  "refused_session =
     \<lparr>describe_regions = Inl (ClientError ''RequestLimitExceeded'' ''Request limit exceeded''),
      describe_reserved_instances =
        (\<lambda>region. Inl (ClientError ''UnauthorizedOperation'' ''not authorized'')),
      describe_reserved_db_instances =
        (\<lambda>region. Inl (ClientError ''AccessDenied'' ''access denied'')),
      describe_savings_plans =
        (\<lambda>region. Inl (ClientError ''InternalFailure'' ''internal failure''))\<rparr>"

definition unreachable_session :: session where
  "unreachable_session =
     \<lparr>describe_regions = Inl (OtherError ''ConnectTimeoutError''),
      describe_reserved_instances = (\<lambda>region. Inl NoCredentialsError),
      describe_reserved_db_instances = (\<lambda>region. Inl (OtherError ''ConnectTimeoutError'')),
      describe_savings_plans = (\<lambda>region. Inl (OtherError ''EndpointConnectionError''))\<rparr>"

definition initial_state :: state where
  "initial_state = \<lparr>stdout = [], calls = []\<rparr>"

text \<open>
  The defaults written in the three fetchers. \<open>filled src k r k' dflt\<close>: when the item
  \<open>src\<close> of the provider has no member \<open>k\<close>, the record \<open>r\<close> holds \<open>dflt\<close> under \<open>k'\<close>.
\<close>

definition filled :: "dict \<Rightarrow> string \<Rightarrow> dict \<Rightarrow> string \<Rightarrow> pyval \<Rightarrow> bool" where
  "filled src k r k' dflt = (dict_get src k = None \<longrightarrow> dict_get r k' = Some dflt)"

definition ec2_defaults :: "dict \<Rightarrow> dict \<Rightarrow> bool" where
  "ec2_defaults ri r =
     (filled ri ''AvailabilityZone'' r ''AvailabilityZone'' (PStr ''N/A'') \<and>
      filled ri ''Start'' r ''Start'' (PStr ''N/A'') \<and>
      filled ri ''End'' r ''End'' (PStr ''N/A'') \<and>
      filled ri ''FixedPrice'' r ''FixedPrice'' (PInt 0) \<and>
      filled ri ''UsagePrice'' r ''UsagePrice'' (PInt 0) \<and>
      filled ri ''CurrencyCode'' r ''CurrencyCode'' (PStr ''USD''))"

definition rds_defaults :: "dict \<Rightarrow> dict \<Rightarrow> bool" where
  "rds_defaults ri r =
     (filled ri ''StartTime'' r ''Start'' (PStr ''N/A'') \<and>
      filled ri ''FixedPrice'' r ''FixedPrice'' (PInt 0) \<and>
      filled ri ''UsagePrice'' r ''UsagePrice'' (PInt 0) \<and>
      filled ri ''CurrencyCode'' r ''CurrencyCode'' (PStr ''USD''))"

definition sp_defaults :: "dict \<Rightarrow> dict \<Rightarrow> bool" where
  "sp_defaults sp r =
     (filled sp ''description'' r ''Description'' (PStr ''N/A'') \<and>
      filled sp ''start'' r ''Start'' (PStr ''N/A'') \<and>
      filled sp ''end'' r ''End'' (PStr ''N/A'') \<and>
      filled sp ''upfrontPaymentAmount'' r ''UpfrontPayment'' (PStr ''N/A'') \<and>
      filled sp ''recurringPaymentAmount'' r ''RecurringPayment'' (PStr ''N/A'') \<and>
      filled sp ''termDurationInSeconds'' r ''TermDurationInSeconds'' (PStr ''N/A'') \<and>
      filled sp ''ec2InstanceFamily'' r ''EC2InstanceFamily'' (PStr ''N/A''))"

text \<open>The records that the three fetchers build from the example items in a region.\<close>

definition example_ec2_record :: "string \<Rightarrow> dict" where
  "example_ec2_record region =
     [(''Type'', PStr ''EC2 Reserved Instance''), (''Region'', PStr region),
      (''ReservedInstancesId'', PStr ''ri-1''), (''InstanceType'', PStr ''t3.micro''),
      (''AvailabilityZone'', PStr ''N/A''), (''State'', PStr ''active''),
      (''Start'', PStr ''2024-03-07 09:05:00 UTC''), (''End'', PStr ''N/A''),
      (''Duration'', PStr ''31536000 seconds''), (''InstanceCount'', PInt 2),
      (''ProductDescription'', PStr ''Linux/UNIX''), (''InstanceTenancy'', PStr ''default''),
      (''OfferingClass'', PStr ''standard''), (''OfferingType'', PStr ''No Upfront''),
      (''FixedPrice'', PInt 0), (''UsagePrice'', PInt 0), (''CurrencyCode'', PStr ''USD'')]"

definition example_rds_record :: "string \<Rightarrow> dict" where
  "example_rds_record region =
     [(''Type'', PStr ''RDS Reserved Instance''), (''Region'', PStr region),
      (''ReservedDBInstanceId'', PStr ''db-1''), (''DBInstanceClass'', PStr ''db.t3.micro''),
      (''Engine'', PStr ''mysql''), (''State'', PStr ''active''), (''Start'', PStr ''N/A''),
      (''Duration'', PStr ''31536000 seconds''), (''DBInstanceCount'', PInt 1),
      (''OfferingType'', PStr ''No Upfront''), (''MultiAZ'', PBool False),
      (''FixedPrice'', PInt 0), (''UsagePrice'', PInt 0), (''CurrencyCode'', PStr ''USD'')]"

definition example_sp_record :: dict where
  "example_sp_record =
     [(''Type'', PStr ''Savings Plan''), (''Region'', PStr ''N/A''),
      (''SavingsPlanId'', PStr ''sp-1''), (''SavingsPlanArn'', PStr ''arn:sp-1''),
      (''Description'', PStr ''N/A''), (''State'', PStr ''active''),
      (''PlanType'', PStr ''Compute''), (''PaymentOption'', PStr ''No Upfront''),
      (''Start'', PStr ''N/A''), (''End'', PStr ''N/A''),
      (''Commitment'', PStr ''1.5 USD/hour''), (''Currency'', PStr ''USD''),
      (''UpfrontPayment'', PStr ''N/A''), (''RecurringPayment'', PStr ''N/A''),
      (''TermDurationInSeconds'', PStr ''N/A''), (''EC2InstanceFamily'', PStr ''N/A'')]"

text \<open>The list that a call of a fetcher returned; no list when an exception left it.\<close>

definition returned :: "(exc + dict list) \<times> state \<Rightarrow> dict list" where
  "returned res = (case fst res of Inl e \<Rightarrow> [] | Inr rs \<Rightarrow> rs)"

text \<open>The three literals that \<^verbatim>\<open>print_summary\<close> compares the \<^verbatim>\<open>Type\<close> of a record with.\<close>

definition has_type :: "string \<Rightarrow> dict \<Rightarrow> bool" where
  "has_type t r = (dict_get r ''Type'' = Some (PStr t))"

text \<open>
  The run of the loop of \<^verbatim>\<open>main\<close> over the regions \<^verbatim>\<open>us-west-2\<close> and \<^verbatim>\<open>us-east-1\<close>,
  in this order, in the example session: the records it collects and the state it ends in.
\<close>

definition example_regions :: "string list" where
  "example_regions = [''us-west-2'', ''us-east-1'']"

definition example_all :: "dict list" where
  "example_all =
     [example_ec2_record ''us-west-2'', example_rds_record ''us-west-2'', example_sp_record,
      example_ec2_record ''us-east-1'', example_rds_record ''us-east-1'', example_sp_record]"

definition example_final_state :: state where
  "example_final_state =
     \<lparr>stdout = [CHR 0x0A # ''Checking region: us-west-2'',
                ''  Found 3 reservations in us-west-2'',
                CHR 0x0A # ''Checking region: us-east-1'',
                ''  Found 3 reservations in us-east-1''],
      calls = [DescribeReservedInstances ''us-west-2'',
               DescribeReservedDBInstances ''us-west-2'',
               DescribeSavingsPlans ''us-west-2'',
               DescribeReservedInstances ''us-east-1'',
               DescribeReservedDBInstances ''us-east-1'',
               DescribeSavingsPlans ''us-east-1'']\<rparr>"

text \<open>
  The in-memory list as the decoder would return it, with each timestamp as the text
  \<^verbatim>\<open>str\<close> gives it: what the specification compares the parsed file with.
\<close>

fun json_of_pyval :: "pyval \<Rightarrow> json" where
  "json_of_pyval PNone = JNull"
| "json_of_pyval (PBool b) = JBool b"
| "json_of_pyval (PInt i) = JInt i"
| "json_of_pyval (PFloat r) = JFloat r"
| "json_of_pyval (PStr s) = JStr s"
| "json_of_pyval (PDatetime d) = JStr (str_datetime d)"

definition json_of_member :: "string \<times> pyval \<Rightarrow> string \<times> json" where
  "json_of_member m = (fst m, json_of_pyval (snd m))"

definition json_of_record :: "dict \<Rightarrow> json" where
  "json_of_record d = JObj (map json_of_member d)"

definition json_of_list :: "dict list \<Rightarrow> json" where
  "json_of_list xs = JArr (map json_of_record xs)"

text \<open>
  The \<^verbatim>\<open>repr\<close> of a finite float: an optional minus sign, an integer part without a
  leading zero, and then a fraction, or an exponent with its sign, or both.
\<close>

definition exponent_ok :: "string \<Rightarrow> bool" where
  "exponent_ok e =
     (case e of
        c # x # ds \<Rightarrow> c = CHR ''e'' \<and> (x = CHR ''+'' \<or> x = CHR ''-'') \<and> decimal ds
      | _ \<Rightarrow> False)"

definition mantissa_ok :: "string \<Rightarrow> bool" where
  "mantissa_ok s =
     (let ip = takeWhile is_digit s; t = dropWhile is_digit s
      in ip \<noteq> [] \<and> (hd ip = CHR ''0'' \<longrightarrow> ip = ''0'') \<and>
         (case t of
            [] \<Rightarrow> False
          | c # u \<Rightarrow>
              if c = CHR ''.'' then
                takeWhile is_digit u \<noteq> [] \<and>
                (dropWhile is_digit u = [] \<or> exponent_ok (dropWhile is_digit u))
              else exponent_ok t))"

definition float_repr :: "string \<Rightarrow> bool" where
  "float_repr r = (case r of [] \<Rightarrow> False | c # s \<Rightarrow> if c = CHR ''-'' then mantissa_ok s else mantissa_ok r)"

definition finite_float :: "pyval \<Rightarrow> bool" where
  "finite_float v = (case v of PFloat r \<Rightarrow> float_repr r | _ \<Rightarrow> True)"

text \<open>
  The \<^verbatim>\<open>repr\<close> of any float: of a finite one, or one of the three texts of the floats
  that are not finite.
\<close>

definition float_text :: "string \<Rightarrow> bool" where
  "float_text r = (r = ''nan'' \<or> r = ''inf'' \<or> r = ''-inf'' \<or> float_repr r)"

definition float_value :: "pyval \<Rightarrow> bool" where
  "float_value v = (case v of PFloat r \<Rightarrow> float_text r | _ \<Rightarrow> True)"

text \<open>A record in which the text of every float is the \<^verbatim>\<open>repr\<close> of a float.\<close>

definition float_values :: "dict \<Rightarrow> bool" where
  "float_values d = list_all (\<lambda>m. float_value (snd m)) d"

text \<open>
  The text of the members of a dictionary from the first character after the opening
  quote of the first key, where the decoder starts to read them.
\<close>

definition members_text :: "dict \<Rightarrow> string" where
  "members_text d = tl (encode_items encode_member (CHR '','' # newline_indent 2) d)"

text \<open>
  A list of members that stands for a Python dictionary: no key is there twice, and the
  text of every float is the \<^verbatim>\<open>repr\<close> of a float.
\<close>

definition python_dict :: "dict \<Rightarrow> bool" where
  "python_dict d = (distinct (map fst d) \<and> float_values d)"

text \<open>
  A report of two records, the first with a value of each kind, a timestamp among them,
  and the text that \<^verbatim>\<open>json.dumps(report, indent=2, default=str)\<close> gives for it.
\<close>

definition example_report :: "dict list" where
  "example_report =
     [[(''Type'', PStr ''Savings Plan''),
       (''Start'', PDatetime example_datetime),
       (''FixedPrice'', PFloat ''1.5''),
       (''InstanceCount'', PInt 2),
       (''Description'',
          PStr (''a '' @ quote # ''b'' @ quote # '' '' @ backslash # '' c'' @ CHR 0x0A # ''d'')),
       (''Scope'', PNone),
       (''Active'', PBool True),
       (''Delta'', PInt (- 3)),
       (''Rate'', PFloat ''1e-05'')],
      []]"

definition example_report_text :: string where
  "example_report_text =
       ''['' @ CHR 0x0A #
       ''  {'' @ CHR 0x0A #
       ''    '' @ quote # ''Type'' @ quote # '': '' @ quote # ''Savings Plan'' @ quote # '','' @ CHR 0x0A #
       ''    '' @ quote # ''Start'' @ quote # '': '' @ quote # ''2024-03-07 09:05:00+00:00'' @ quote # '','' @ CHR 0x0A #
       ''    '' @ quote # ''FixedPrice'' @ quote # '': 1.5,'' @ CHR 0x0A #
       ''    '' @ quote # ''InstanceCount'' @ quote # '': 2,'' @ CHR 0x0A #
       ''    '' @ quote # ''Description'' @ quote # '': '' @ quote # ''a '' @ backslash # quote # ''b'' @ backslash # quote # '' '' @ backslash # backslash # '' c'' @ backslash # ''nd'' @ quote # '','' @ CHR 0x0A #
       ''    '' @ quote # ''Scope'' @ quote # '': null,'' @ CHR 0x0A #
       ''    '' @ quote # ''Active'' @ quote # '': true,'' @ CHR 0x0A #
       ''    '' @ quote # ''Delta'' @ quote # '': -3,'' @ CHR 0x0A #
       ''    '' @ quote # ''Rate'' @ quote # '': 1e-05'' @ CHR 0x0A #
       ''  },'' @ CHR 0x0A #
       ''  {}'' @ CHR 0x0A #
       '']''"
section \<open>Decimal digits\<close>

lemma digit_mod: "digit (n mod 10) = digit n"
  by (simp add: digit_def)

lemma digit_0: "digit 0 = CHR ''0''"
  by (simp add: digit_def)

lemma str_nat_small: "n < 10 \<Longrightarrow> str_nat n = [digit n]"
  by (subst str_nat.simps) simp

lemma str_nat_big: "\<not> n < 10 \<Longrightarrow> str_nat n = str_nat (n div 10) @ [digit n]"
  by (subst str_nat.simps) (simp add: digit_mod)

lemma div100: "(n::nat) div 10 div 10 = n div 100"
  using div_mult2_eq [of n 10 10] by simp

lemma div1000: "(n::nat) div 10 div 10 div 10 = n div 1000"
  using div_mult2_eq [of n 100 10] by (simp add: div100)

lemma zfill2: "n < 100 \<Longrightarrow> zfill 2 (str_nat n) = [digit (n div 10), digit n]"
proof (cases "n < 10")
  case True
  then have "n div 10 = 0" by simp
  with True show ?thesis by (simp add: str_nat_small zfill_def digit_0)
next
  case False
  assume "n < 100"
  then have "n div 10 < 10" by simp
  with False show ?thesis by (simp add: str_nat_big str_nat_small zfill_def)
qed


lemma str_nat4:
  assumes "1000 \<le> n" and "n < 10000"
  shows "str_nat n = [digit (n div 1000), digit (n div 100), digit (n div 10), digit n]"
proof -
  let ?a = "n div 10" and ?b = "n div 100" and ?c = "n div 1000"
  have ab: "?a div 10 = ?b" by (rule div100)
  have bc: "?b div 10 = ?c" using div1000 [of n] by (simp add: div100)
  have c: "?c < 10" using assms by simp
  from assms have big: "\<not> n < 10" "\<not> ?a < 10" "\<not> ?b < 10" by simp_all
  have "str_nat ?b = [digit ?c, digit ?b]"
    using big c bc by (simp add: str_nat_big [of ?b] str_nat_small)
  then have "str_nat ?a = [digit ?c, digit ?b, digit ?a]"
    using big ab by (simp add: str_nat_big [of ?a])
  then show ?thesis
    using big by (simp add: str_nat_big [of n])
qed

lemma strftime_utc:
  "strftime d ''%Y-%m-%d %H:%M:%S UTC'' =
     str_nat (dt_year d) @ ''-'' @ zfill 2 (str_nat (dt_month d)) @ ''-''
     @ zfill 2 (str_nat (dt_day d)) @ '' '' @ zfill 2 (str_nat (dt_hour d)) @ '':''
     @ zfill 2 (str_nat (dt_minute d)) @ '':'' @ zfill 2 (str_nat (dt_second d)) @ '' UTC''"
  by (simp add: directive_def)

lemma is_digit_digit: "is_digit (digit n)"
proof -
  have "n mod 10 < length ''0123456789''" by simp
  then have "''0123456789'' ! (n mod 10) \<in> set ''0123456789''" by (rule nth_mem)
  then show ?thesis by (simp only: is_digit_def digit_def)
qed

section \<open>The handler of the fetchers\<close>

lemma handle_client_error_caught:
  "handle_client_error what region (Inl (ClientError code text)) s =
      (Inr [],
       if code = ''UnauthorizedOperation'' \<or> code = ''AccessDenied'' then s
       else print (''Error retrieving '' @ what @ '' in '' @ region @ '': '' @ text) s)"
  by (simp add: handle_client_error_def)

lemma handle_client_error_passed:
  "\<not> is_client_error e \<Longrightarrow> handle_client_error what region (Inl e) s = (Inl e, s)"
  by (cases e) (simp_all add: handle_client_error_def)

lemma handle_client_error_returned:
  "handle_client_error what region (Inr rs) s = (Inr rs, s)"
  by (simp add: handle_client_error_def)

section \<open>Dictionaries and the loops that build the results\<close>

lemma map_of_dict_set: "map_of (dict_set d k v) = (map_of d)(k \<mapsto> v)"
  by (induction d) auto

text \<open>
  What a successful dictionary display holds under a key: the value of the last entry
  written with that key, or what was there before.
\<close>

lemma dict_display_get:
  "dict_display es acc = Inr d \<Longrightarrow>
   dict_get d k =
     (case map_of (rev es) k of None \<Rightarrow> dict_get acc k | Some e \<Rightarrow> Some (projr e))"
proof (induction es arbitrary: acc)
  case Nil
  then show ?case by simp
next
  case (Cons x es)
  obtain k' e where x: "x = (k', e)" by (cases x)
  from Cons.prems x obtain v where e: "e = Inr v"
    and rest: "dict_display es (dict_set acc k' v) = Inr d"
    by (cases e) simp_all
  from Cons.IH [OF rest] show ?case
    by (simp add: x e dict_get_def map_of_dict_set map_add_def split: option.splits)
qed

text \<open>The results of a loop that appends: one for each item, in the order of the items.\<close>

lemma append_each_all2:
  "append_each f xs acc = Inr rs \<Longrightarrow>
   \<exists>ys. rs = acc @ ys \<and> list_all2 (\<lambda>x y. f x = Inr y) xs ys"
proof (induction xs arbitrary: acc)
  case Nil
  then show ?case by simp
next
  case (Cons x xs)
  from Cons.prems obtain y where y: "f x = Inr y" and rest: "append_each f xs (acc @ [y]) = Inr rs"
    by (cases "f x") simp_all
  from Cons.IH [OF rest] obtain ys where "rs = (acc @ [y]) @ ys"
    and "list_all2 (\<lambda>x y. f x = Inr y) xs ys" by blast
  with y have "rs = acc @ (y # ys) \<and> list_all2 (\<lambda>x y. f x = Inr y) (x # xs) (y # ys)"
    by simp
  then show ?case by blast
qed

lemma append_each_error:
  "append_each f xs acc = Inl e \<Longrightarrow> \<exists>x \<in> set xs. f x = Inl e"
proof (induction xs arbitrary: acc)
  case Nil
  then show ?case by simp
next
  case (Cons x xs)
  then show ?case by (cases "f x") auto
qed

lemma dict_display_error:
  "dict_display es acc = Inl e \<Longrightarrow> \<exists>k. (k, Inl e) \<in> set es"
proof (induction es arbitrary: acc)
  case Nil
  then show ?case by simp
next
  case (Cons x es)
  obtain k' y where x: "x = (k', y)" by (cases x)
  show ?case
  proof (cases y)
    case (Inl e')
    with Cons.prems x show ?thesis by auto
  next
    case (Inr v)
    with Cons.prems x have "dict_display es (dict_set acc k' v) = Inl e" by simp
    from Cons.IH [OF this] show ?thesis by auto
  qed
qed

text \<open>
  The exceptions raised while an entry is built are \<^verbatim>\<open>KeyError\<close> and
  \<^verbatim>\<open>AttributeError\<close>, which the handler of the fetcher does not catch.
\<close>

lemma subscript_error: "subscript d k = Inl e \<Longrightarrow> \<not> is_client_error e"
  by (auto simp: subscript_def split: option.splits)

lemma fmt1_error: "fmt1 d k suffix = Inl e \<Longrightarrow> \<not> is_client_error e"
  by (auto simp: fmt1_def subscript_def split: option.splits)

lemma commitment_error: "commitment d = Inl e \<Longrightarrow> \<not> is_client_error e"
  by (auto simp: commitment_def subscript_def split: option.splits)

lemma format_datetime_error: "format_datetime v = Inl e \<Longrightarrow> \<not> is_client_error e"
  by (cases v) (auto simp: format_datetime_def split: if_splits)

lemmas entry_errors =
  subscript_error [OF sym] fmt1_error [OF sym] commitment_error [OF sym]
  format_datetime_error [OF sym]

lemma ec2_entry_error: "ec2_entry region ri = Inl e \<Longrightarrow> \<not> is_client_error e"
  unfolding ec2_entry_def by (drule dict_display_error) (auto dest: entry_errors)

lemma rds_entry_error: "rds_entry region ri = Inl e \<Longrightarrow> \<not> is_client_error e"
  unfolding rds_entry_def by (drule dict_display_error) (auto dest: entry_errors)

lemma sp_entry_error: "sp_entry region sp = Inl e \<Longrightarrow> \<not> is_client_error e"
  unfolding sp_entry_def by (drule dict_display_error) (auto dest: entry_errors)

lemma handle_client_error_fst:
  assumes "\<And>e. body = Inl e \<Longrightarrow> \<not> is_client_error e"
  shows "fst (handle_client_error what region body s) = body"
proof (cases body)
  case (Inl e)
  with assms show ?thesis by (simp add: handle_client_error_passed)
next
  case (Inr rs)
  then show ?thesis by (simp add: handle_client_error_returned)
qed

text \<open>What a fetcher returns when its listing answers with items.\<close>

lemma get_ec2_reserved_instances_items:
  assumes "describe_reserved_instances session region = Inr (Some items)"
  shows "fst (get_ec2_reserved_instances session region st) =
           append_each (ec2_entry region) items []"
  using assms unfolding get_ec2_reserved_instances_def member_def
  by (simp add: handle_client_error_fst) (rule handle_client_error_fst,
      blast dest: append_each_error ec2_entry_error)

lemma get_rds_reserved_instances_items:
  assumes "describe_reserved_db_instances session region = Inr (Some items)"
  shows "fst (get_rds_reserved_instances session region st) =
           append_each (rds_entry region) items []"
  using assms unfolding get_rds_reserved_instances_def member_def
  by (simp add: handle_client_error_fst) (rule handle_client_error_fst,
      blast dest: append_each_error rds_entry_error)

lemma get_savings_plans_items:
  assumes "describe_savings_plans session region = Inr (Some items)"
  shows "fst (get_savings_plans session region st) =
           append_each (sp_entry region) items []"
  using assms unfolding get_savings_plans_def member_def
  by (simp add: handle_client_error_fst) (rule handle_client_error_fst,
      blast dest: append_each_error sp_entry_error)

lemma append_each_entries:
  assumes "append_each f xs [] = Inr rs"
  shows "list_all2 (\<lambda>x y. f x = Inr y) xs rs"
  using append_each_all2 [OF assms] by simp

section \<open>The example inputs, evaluated\<close>

lemma str_nat_example: "str_nat 31536000 = ''31536000''" "str_nat 0 = ''0''"
  "str_nat 1 = ''1''" "str_nat 2 = ''2''" "str_nat 3 = ''3''" "str_nat 6 = ''6''"
  by (simp_all add: str_nat_big str_nat_small digit_def)

lemma str_int_example: "str_int 31536000 = ''31536000''"
  by (simp add: str_int_def str_nat_example)

lemma example_datetime_valid: "valid_datetime example_datetime"
  by (simp add: valid_datetime_def example_datetime_def)

lemma example_datetime_text:
  "str_nat (dt_year example_datetime) @ ''-''
     @ zfill 2 (str_nat (dt_month example_datetime)) @ ''-''
     @ zfill 2 (str_nat (dt_day example_datetime)) @ '' ''
     @ zfill 2 (str_nat (dt_hour example_datetime)) @ '':''
     @ zfill 2 (str_nat (dt_minute example_datetime)) @ '':''
     @ zfill 2 (str_nat (dt_second example_datetime)) @ '' UTC''
   = ''2024-03-07 09:05:00 UTC''"
  by (simp add: example_datetime_def zfill2 str_nat4 digit_def)

lemma example_strftime:
  "strftime example_datetime ''%Y-%m-%d %H:%M:%S UTC'' = ''2024-03-07 09:05:00 UTC''"
  unfolding strftime_utc by (rule example_datetime_text)

lemma format_datetime_example:
  "format_datetime (PDatetime example_datetime) = Inr (PStr ''2024-03-07 09:05:00 UTC'')"
  "format_datetime PNone = Inr (PStr ''N/A'')"
  by (simp_all add: format_datetime_def example_strftime del: strftime.simps)

lemma ec2_entry_example: "ec2_entry region example_ri = Inr (example_ec2_record region)"
  by (simp add: ec2_entry_def example_ri_def example_ec2_record_def subscript_def
      dict_get_def get_default_def fmt1_def format_datetime_example str_int_example)

lemma rds_entry_example: "rds_entry region example_db = Inr (example_rds_record region)"
  by (simp add: rds_entry_def example_db_def example_rds_record_def subscript_def
      dict_get_def get_default_def fmt1_def format_datetime_example str_int_example)

lemma sp_entry_example: "sp_entry region example_plan = Inr example_sp_record"
  by (simp add: sp_entry_def example_plan_def example_sp_record_def subscript_def
      dict_get_def get_default_def commitment_def format_datetime_example)

lemma example_session_simps:
  "describe_reserved_instances example_session region = Inr (Some [example_ri])"
  "describe_reserved_db_instances example_session region = Inr (Some [example_db])"
  "describe_savings_plans example_session region = Inr (Some [example_plan])"
  by (simp_all add: example_session_def)

lemma get_ec2_reserved_instances_example:
  "get_ec2_reserved_instances example_session region st =
     (Inr [example_ec2_record region], issue (DescribeReservedInstances region) st)"
  by (simp add: get_ec2_reserved_instances_def example_session_simps member_def
      ec2_entry_example handle_client_error_returned)

lemma get_rds_reserved_instances_example:
  "get_rds_reserved_instances example_session region st =
     (Inr [example_rds_record region], issue (DescribeReservedDBInstances region) st)"
  by (simp add: get_rds_reserved_instances_def example_session_simps member_def
      rds_entry_example handle_client_error_returned)

lemma get_savings_plans_example:
  "get_savings_plans example_session region st =
     (Inr [example_sp_record], issue (DescribeSavingsPlans region) st)"
  by (simp add: get_savings_plans_def example_session_simps member_def
      sp_entry_example handle_client_error_returned)

section \<open>The loop of main\<close>

lemma handle_client_error_state:
  "fst (handle_client_error what region body s) = fst (handle_client_error what region body s')"
proof (cases body)
  case (Inl e)
  then show ?thesis by (cases e) (simp_all add: handle_client_error_def)
next
  case (Inr rs)
  then show ?thesis by (simp add: handle_client_error_def)
qed

text \<open>What a fetcher returns does not depend on the state it is called in.\<close>

lemma returned_state:
  "fst (get_ec2_reserved_instances session region st) =
     fst (get_ec2_reserved_instances session region st')"
  "fst (get_rds_reserved_instances session region st) =
     fst (get_rds_reserved_instances session region st')"
  "fst (get_savings_plans session region st) = fst (get_savings_plans session region st')"
  unfolding get_ec2_reserved_instances_def get_rds_reserved_instances_def
    get_savings_plans_def
  by (rule handle_client_error_state)+

lemma returned_eq:
  "get_ec2_reserved_instances session region st = (Inr rs, st1) \<Longrightarrow>
     returned (get_ec2_reserved_instances session region s) = rs"
  "get_rds_reserved_instances session region st = (Inr rs, st1) \<Longrightarrow>
     returned (get_rds_reserved_instances session region s) = rs"
  "get_savings_plans session region st = (Inr rs, st1) \<Longrightarrow>
     returned (get_savings_plans session region s) = rs"
  using returned_state [of session region s st] by (simp_all add: returned_def)

text \<open>One turn of the loop that ends without an exception.\<close>

lemma main_collect_step:
  assumes "main_collect session (region # regions) acc rwd st = (Inr res, st')"
  shows "\<exists>ec2 rds sp st1 st2 st3 st4.
           get_ec2_reserved_instances session region
             (print (CHR 0x0A # ''Checking region: '' @ region) st) = (Inr ec2, st1) \<and>
           get_rds_reserved_instances session region st1 = (Inr rds, st2) \<and>
           get_savings_plans session region st2 = (Inr sp, st3) \<and>
           main_collect session regions (acc @ ec2 @ rds @ sp)
             (if ec2 @ rds @ sp \<noteq> [] then insert region rwd else rwd) st4 = (Inr res, st')"
proof -
  let ?st0 = "print (CHR 0x0A # ''Checking region: '' @ region) st"
  obtain r1 st1 where e1: "get_ec2_reserved_instances session region ?st0 = (r1, st1)"
    by (cases "get_ec2_reserved_instances session region ?st0")
  obtain r2 st2 where e2: "get_rds_reserved_instances session region st1 = (r2, st2)"
    by (cases "get_rds_reserved_instances session region st1")
  obtain r3 st3 where e3: "get_savings_plans session region st2 = (r3, st3)"
    by (cases "get_savings_plans session region st2")
  from assms e1 obtain ec2 where r1: "r1 = Inr ec2"
    by (cases r1) simp_all
  from assms e1 e2 r1 obtain rds where r2: "r2 = Inr rds"
    by (cases r2) simp_all
  from assms e1 e2 e3 r1 r2 obtain sp where r3: "r3 = Inr sp"
    by (cases r3) simp_all
  from assms e1 e2 e3 r1 r2 r3 have "\<exists>st4.
      main_collect session regions (acc @ ec2 @ rds @ sp)
        (if ec2 @ rds @ sp \<noteq> [] then insert region rwd else rwd) st4 = (Inr res, st')"
    by (cases "ec2 @ rds @ sp = []") (auto simp: Let_def)
  with e1 e2 e3 r1 r2 r3 show ?thesis by blast
qed

lemma main_collect_concat:
  assumes "main_collect session regions acc rwd st = (Inr (all_reservations, rwd'), st')"
  shows "all_reservations =
           acc @ concat (map (\<lambda>region.
             returned (get_ec2_reserved_instances session region s)
             @ returned (get_rds_reserved_instances session region s)
             @ returned (get_savings_plans session region s)) regions)"
  using assms
proof (induction regions arbitrary: acc rwd st)
  case Nil
  then show ?case by simp
next
  case (Cons region regions)
  from main_collect_step [OF Cons.prems] obtain ec2 rds sp st1 st2 st3 st4 where
    f: "get_ec2_reserved_instances session region
         (print (CHR 0x0A # ''Checking region: '' @ region) st) = (Inr ec2, st1)"
      "get_rds_reserved_instances session region st1 = (Inr rds, st2)"
      "get_savings_plans session region st2 = (Inr sp, st3)"
    and rest: "main_collect session regions (acc @ ec2 @ rds @ sp)
             (if ec2 @ rds @ sp \<noteq> [] then insert region rwd else rwd) st4
            = (Inr (all_reservations, rwd'), st')"
    by blast
  from Cons.IH [OF rest] returned_eq(1) [OF f(1)] returned_eq(2) [OF f(2)]
    returned_eq(3) [OF f(3)]
  show ?case by simp
qed

text \<open>The loop in the example session.\<close>

lemma main_collect_example:
  "main_collect example_session example_regions [] {} initial_state =
     (Inr (example_all, {''us-west-2'', ''us-east-1''}), example_final_state)"
  by (simp add: example_regions_def get_ec2_reserved_instances_example
      get_rds_reserved_instances_example get_savings_plans_example print_def issue_def
      initial_state_def example_all_def example_final_state_def str_nat_small digit_def
      insert_commute)

section \<open>The fields Type and Region of the records\<close>

lemma ec2_entry_type:
  assumes "ec2_entry region ri = Inr r"
  shows "dict_get r ''Type'' = Some (PStr ''EC2 Reserved Instance'')"
  by (subst dict_display_get [OF assms [unfolded ec2_entry_def]]) simp

lemma rds_entry_type:
  assumes "rds_entry region ri = Inr r"
  shows "dict_get r ''Type'' = Some (PStr ''RDS Reserved Instance'')"
  by (subst dict_display_get [OF assms [unfolded rds_entry_def]]) simp

lemma sp_entry_type:
  assumes "sp_entry region sp = Inr r"
  shows "dict_get r ''Type'' = Some (PStr ''Savings Plan'')"
  by (subst dict_display_get [OF assms [unfolded sp_entry_def]]) simp

text \<open>
  The compute and the database fetcher store the region they were called with; the
  savings plans fetcher stores it too, and then stores over it.
\<close>

lemma ec2_entry_region:
  assumes "ec2_entry region ri = Inr r"
  shows "dict_get r ''Region'' = Some (PStr region)"
  by (subst dict_display_get [OF assms [unfolded ec2_entry_def]]) simp

lemma rds_entry_region:
  assumes "rds_entry region ri = Inr r"
  shows "dict_get r ''Region'' = Some (PStr region)"
  by (subst dict_display_get [OF assms [unfolded rds_entry_def]]) simp

lemma sp_entry_region:
  assumes "sp_entry region sp = Inr r"
  shows "dict_get r ''Region'' = Some (get_default sp ''region'' (PStr ''N/A''))"
  by (subst dict_display_get [OF assms [unfolded sp_entry_def]]) simp

text \<open>Every list that a fetcher returns is made of entries: none when the listing raised.\<close>

lemma handle_client_error_returns:
  assumes "fst (handle_client_error what region body s) = Inr rs"
  shows "body = Inr rs \<or> (rs = [] \<and> (\<exists>code text. body = Inl (ClientError code text)))"
proof (cases body)
  case (Inl e)
  with assms show ?thesis by (cases e) (simp_all add: handle_client_error_def)
next
  case (Inr rs')
  with assms show ?thesis by (simp add: handle_client_error_def)
qed

lemma returned_entries:
  assumes "fst (handle_client_error what region
              (case member k out of Inl e \<Rightarrow> Inl e | Inr items \<Rightarrow> append_each f items []) s)
           = Inr rs"
  shows "\<forall>r \<in> set rs. \<exists>item. f item = Inr r"
proof -
  from handle_client_error_returns [OF assms]
  consider "rs = []"
    | "(case member k out of Inl e \<Rightarrow> Inl e | Inr items \<Rightarrow> append_each f items []) = Inr rs"
    by blast
  then show ?thesis
  proof cases
    case 1
    then show ?thesis by simp
  next
    case 2
    then obtain items where "append_each f items [] = Inr rs"
      by (cases "member k out") simp_all
    from append_each_entries [OF this] show ?thesis
      by (fastforce simp: list_all2_conv_all_nth in_set_conv_nth)
  qed
qed

lemma get_ec2_reserved_instances_type:
  assumes "fst (get_ec2_reserved_instances session region st) = Inr rs" and "r \<in> set rs"
  shows "has_type ''EC2 Reserved Instance'' r"
  using returned_entries [OF assms(1) [unfolded get_ec2_reserved_instances_def]] assms(2)
  by (auto simp: has_type_def dest: ec2_entry_type)

lemma get_rds_reserved_instances_type:
  assumes "fst (get_rds_reserved_instances session region st) = Inr rs" and "r \<in> set rs"
  shows "has_type ''RDS Reserved Instance'' r"
  using returned_entries [OF assms(1) [unfolded get_rds_reserved_instances_def]] assms(2)
  by (auto simp: has_type_def dest: rds_entry_type)

lemma get_savings_plans_type:
  assumes "fst (get_savings_plans session region st) = Inr rs" and "r \<in> set rs"
  shows "has_type ''Savings Plan'' r"
  using returned_entries [OF assms(1) [unfolded get_savings_plans_def]] assms(2)
  by (auto simp: has_type_def dest: sp_entry_type)

lemma returned_type:
  "r \<in> set (returned (get_ec2_reserved_instances session region s)) \<Longrightarrow>
     has_type ''EC2 Reserved Instance'' r"
  "r \<in> set (returned (get_rds_reserved_instances session region s)) \<Longrightarrow>
     has_type ''RDS Reserved Instance'' r"
  "r \<in> set (returned (get_savings_plans session region s)) \<Longrightarrow>
     has_type ''Savings Plan'' r"
  by (auto simp: returned_def split: sum.splits
      dest: get_ec2_reserved_instances_type [OF sym] get_rds_reserved_instances_type [OF sym]
        get_savings_plans_type [OF sym])

lemma main_collect_type:
  assumes "main_collect session regions [] {} st = (Inr (all_reservations, rwd), st')"
    and "r \<in> set all_reservations"
  shows "has_type ''EC2 Reserved Instance'' r \<or> has_type ''RDS Reserved Instance'' r
    \<or> has_type ''Savings Plan'' r"
  using assms(2) unfolding main_collect_concat [OF assms(1), of st]
  by (auto dest: returned_type)

lemma has_type_exclusive:
  "has_type ''EC2 Reserved Instance'' r \<Longrightarrow>
     \<not> has_type ''RDS Reserved Instance'' r \<and> \<not> has_type ''Savings Plan'' r"
  "has_type ''RDS Reserved Instance'' r \<Longrightarrow>
     \<not> has_type ''EC2 Reserved Instance'' r \<and> \<not> has_type ''Savings Plan'' r"
  "has_type ''Savings Plan'' r \<Longrightarrow>
     \<not> has_type ''EC2 Reserved Instance'' r \<and> \<not> has_type ''RDS Reserved Instance'' r"
  by (simp_all add: has_type_def)

section \<open>Reading decimal texts\<close>

lemma of_char_digit: "of_char (digit n) = 48 + n mod 10"
proof -
  have "n mod 10 < 10" by simp
  then have "n mod 10 = 0 \<or> n mod 10 = 1 \<or> n mod 10 = 2 \<or> n mod 10 = 3 \<or> n mod 10 = 4
      \<or> n mod 10 = 5 \<or> n mod 10 = 6 \<or> n mod 10 = 7 \<or> n mod 10 = 8 \<or> n mod 10 = 9"
    by arith
  then show ?thesis
    unfolding digit_def by (elim disjE) simp_all
qed

lemma read_nat_snoc: "read_nat (s @ [c]) = 10 * read_nat s + (of_char c - 48)"
  by (simp add: read_nat_def)

lemma read_nat_str_nat: "read_nat (str_nat n) = n"
proof (induction n rule: str_nat.induct)
  case (1 n)
  show ?case
  proof (cases "n < 10")
    case True
    then show ?thesis by (simp add: str_nat_small read_nat_def of_char_digit)
  next
    case False
    with 1 show ?thesis
      by (simp add: str_nat_big read_nat_snoc of_char_digit)
  qed
qed

lemma decimal_str_nat: "decimal (str_nat n)"
proof (induction n rule: str_nat.induct)
  case (1 n)
  show ?case
  proof (cases "n < 10")
    case True
    then show ?thesis by (simp add: str_nat_small decimal_def is_digit_digit)
  next
    case False
    with 1 show ?thesis
      by (simp add: str_nat_big decimal_def is_digit_digit)
  qed
qed

section \<open>Reading back what the encoder writes\<close>

subsection \<open>Texts\<close>

lemma hexval_hexdigit: "hexval (hexdigit k) = Some (k mod 16)"
proof -
  have "k mod 16 < 16" by simp
  then have "k mod 16 = 0 \<or> k mod 16 = 1 \<or> k mod 16 = 2 \<or> k mod 16 = 3 \<or> k mod 16 = 4
      \<or> k mod 16 = 5 \<or> k mod 16 = 6 \<or> k mod 16 = 7 \<or> k mod 16 = 8 \<or> k mod 16 = 9
      \<or> k mod 16 = 10 \<or> k mod 16 = 11 \<or> k mod 16 = 12 \<or> k mod 16 = 13 \<or> k mod 16 = 14
      \<or> k mod 16 = 15"
    by arith
  then show ?thesis
    unfolding hexdigit_def by (elim disjE) (simp_all add: hexval_def is_digit_def)
qed

lemma hexval_0: "hexval CHR ''0'' = Some 0"
  by (simp add: hexval_def is_digit_def)

lemma hex4_char: "hex4 CHR ''0'' CHR ''0'' (hexdigit (of_char c div 16)) (hexdigit (of_char c)) = Some (of_char c)"
proof -
  have "(of_char c :: nat) < 16 * 16" by simp
  then have "(of_char c :: nat) div 16 < 16" by (rule less_mult_imp_div_less)
  then have "(of_char c :: nat) div 16 mod 16 = of_char c div 16" by simp
  then show ?thesis
    by (simp add: hex4_def hexval_hexdigit hexval_0)
qed

lemma scan_escape_char:
  "scan_string (escape_char c @ s) = prepend c (scan_string s)"
proof -
  consider "c = quote" | "c = backslash" | "c = CHR 0x08" | "c = CHR 0x0C" | "c = CHR 0x0A"
    | "c = CHR 0x0D" | "c = CHR 0x09"
    | "c \<noteq> quote" "c \<noteq> backslash" "(0x20::nat) \<le> of_char c" "of_char c \<le> (0x7E::nat)"
    | "c \<noteq> quote" "c \<noteq> backslash" "c \<noteq> CHR 0x08" "c \<noteq> CHR 0x0C" "c \<noteq> CHR 0x0A"
      "c \<noteq> CHR 0x0D" "c \<noteq> CHR 0x09" "\<not> ((0x20::nat) \<le> of_char c \<and> of_char c \<le> (0x7E::nat))"
    by blast
  then show ?thesis
  proof cases
    case 8
    then have "c \<noteq> CHR 0x08" "c \<noteq> CHR 0x0C" "c \<noteq> CHR 0x0A" "c \<noteq> CHR 0x0D" "c \<noteq> CHR 0x09"
      by auto
    with 8 show ?thesis by (simp add: escape_char_def)
  next
    case 9
    then show ?thesis
      by (simp add: escape_char_def quote_def backslash_def hex4_char)
  qed (simp_all add: escape_char_def unescape_def quote_def backslash_def)
qed

lemma scan_string_escape:
  "scan_string (concat (map escape_char s) @ quote # rest) = Some (s, rest)"
  by (induction s) (simp_all add: scan_escape_char prepend_def)

subsection \<open>Numbers\<close>

lemma span_digits:
  assumes "list_all is_digit ds" and "\<not> is_digit c"
  shows "takeWhile is_digit (ds @ c # rest) = ds"
    and "dropWhile is_digit (ds @ c # rest) = c # rest"
  using assms by (induction ds) simp_all

lemma digit_eq_0: "digit n = CHR ''0'' \<longleftrightarrow> n mod 10 = 0"
proof -
  have "digit n = CHR ''0'' \<longleftrightarrow> (of_char (digit n) :: nat) = of_char CHR ''0''"
    by (simp only: of_char_eq_iff)
  then show ?thesis by (simp add: of_char_digit)
qed

lemma str_nat_0: "str_nat 0 = ''0''"
  by (simp add: str_nat_small digit_0)

lemma str_nat_hd: "n \<noteq> 0 \<Longrightarrow> hd (str_nat n) \<noteq> CHR ''0''"
proof (induction n rule: str_nat.induct)
  case (1 n)
  show ?case
  proof (cases "n < 10")
    case True
    with 1(2) show ?thesis by (simp add: str_nat_small digit_eq_0)
  next
    case False
    then have "n div 10 \<noteq> 0" by simp
    with 1(1) False have "hd (str_nat (n div 10)) \<noteq> CHR ''0''" by simp
    moreover have "str_nat (n div 10) \<noteq> []" using decimal_str_nat by (simp add: decimal_def)
    ultimately show ?thesis using False by (simp add: str_nat_big)
  qed
qed

lemma scan_int_part_digits:
  assumes "ip \<noteq> []" and "list_all is_digit ip" and "hd ip = CHR ''0'' \<longrightarrow> ip = ''0''"
    and "\<not> is_digit c"
  shows "scan_int_part (ip @ c # rest) = Some (ip, c # rest)"
proof -
  from assms(1) obtain d ds where ip: "ip = d # ds" by (cases ip) auto
  show ?thesis
  proof (cases "d = CHR ''0''")
    case True
    with assms(3) ip have "ds = []" by simp
    with True ip show ?thesis by (simp add: scan_int_part_def)
  next
    case False
    from assms(2) ip have "is_digit d" by simp
    with False ip span_digits [OF assms(2) assms(4), of rest] show ?thesis
      by (simp add: scan_int_part_def)
  qed
qed

lemma not_digit_end: "c = CHR '','' \<or> c = CHR 0x0A \<Longrightarrow> \<not> is_digit c"
  by (auto simp: is_digit_def)

lemma scan_tail_end:
  assumes "c = CHR '','' \<or> c = CHR 0x0A"
  shows "scan_fraction (c # rest) = ([], c # rest)"
    and "scan_exponent (c # rest) = ([], c # rest)"
  using assms by (auto simp: scan_fraction_def scan_exponent_def)

lemma scan_number_nat:
  assumes "c = CHR '','' \<or> c = CHR 0x0A"
  shows "scan_int_part (str_nat n @ c # rest) = Some (str_nat n, c # rest)"
proof (rule scan_int_part_digits)
  show "str_nat n \<noteq> []" "list_all is_digit (str_nat n)"
    using decimal_str_nat [of n] by (simp_all add: decimal_def)
  show "hd (str_nat n) = CHR ''0'' \<longrightarrow> str_nat n = ''0''"
    using str_nat_hd [of n] str_nat_0 by (cases "n = 0") auto
  show "\<not> is_digit c" using assms by (rule not_digit_end)
qed

lemma hd_str_nat_not_minus: "hd (str_nat n) \<noteq> CHR ''-''"
proof -
  from decimal_str_nat [of n] have "is_digit (hd (str_nat n))"
    by (cases "str_nat n") (simp_all add: decimal_def)
  then show ?thesis by (auto simp: is_digit_def)
qed

lemma scan_sign_digits: "s \<noteq> [] \<Longrightarrow> hd s \<noteq> CHR ''-'' \<Longrightarrow> scan_sign (s @ r) = ([], s @ r)"
  by (cases s) (simp_all add: scan_sign_def)

lemma scan_sign_minus: "scan_sign (CHR ''-'' # s) = (''-'', s)"
  by (simp add: scan_sign_def)

lemma scan_number_int:
  assumes "c = CHR '','' \<or> c = CHR 0x0A"
  shows "scan_number (str_int i @ c # rest) = Some (JInt i, c # rest)"
proof (cases "i < 0")
  case True
  then have "str_int i @ c # rest = CHR ''-'' # (str_nat (nat (- i)) @ c # rest)"
    by (simp add: str_int_def)
  with True show ?thesis
    by (simp add: scan_number_def scan_sign_minus scan_number_nat [OF assms]
        scan_tail_end [OF assms] read_nat_str_nat)
next
  case False
  have "str_nat (nat i) \<noteq> []" using decimal_str_nat by (simp add: decimal_def)
  then have "scan_sign (str_nat (nat i) @ c # rest) = ([], str_nat (nat i) @ c # rest)"
    using hd_str_nat_not_minus by (rule scan_sign_digits)
  with False show ?thesis
    by (simp add: str_int_def scan_number_def scan_number_nat [OF assms]
        scan_tail_end [OF assms] read_nat_str_nat)
qed

lemma hd_dropWhile_not: "dropWhile P xs \<noteq> [] \<Longrightarrow> \<not> P (hd (dropWhile P xs))"
  by (induction xs) auto

lemma exponent_ok_scan:
  assumes "exponent_ok e" and "c = CHR '','' \<or> c = CHR 0x0A"
  shows "scan_exponent (e @ c # rest) = (e, c # rest)"
    and "scan_fraction (e @ c # rest) = ([], e @ c # rest)"
    and "\<not> is_digit (hd (e @ c # rest))"
proof -
  from assms(1) obtain x ds where e: "e = CHR ''e'' # x # ds" and x: "x = CHR ''+'' \<or> x = CHR ''-''"
    and ds: "decimal ds"
    by (auto simp: exponent_ok_def split: list.splits)
  from ds have d: "ds \<noteq> []" "list_all is_digit ds" by (simp_all add: decimal_def)
  note sp = span_digits [OF d(2) not_digit_end [OF assms(2)], of rest]
  from x have sg: "scan_exp_sign (x # ds @ c # rest) = ([x], ds @ c # rest)"
    by (auto simp: scan_exp_sign_def)
  show "scan_exponent (e @ c # rest) = (e, c # rest)"
    using d(1) by (simp add: e scan_exponent_def sg sp)
  show "scan_fraction (e @ c # rest) = ([], e @ c # rest)"
    by (simp add: e scan_fraction_def)
  show "\<not> is_digit (hd (e @ c # rest))"
    by (simp add: e is_digit_def)
qed

lemma mantissa_ok_scan:
  assumes "mantissa_ok s" and "c = CHR '','' \<or> c = CHR 0x0A"
  shows "\<exists>ip frac ex. s = ip @ frac @ ex \<and> (frac \<noteq> [] \<or> ex \<noteq> []) \<and>
           scan_int_part (s @ c # rest) = Some (ip, frac @ ex @ c # rest) \<and>
           scan_fraction (frac @ ex @ c # rest) = (frac, ex @ c # rest) \<and>
           scan_exponent (ex @ c # rest) = (ex, c # rest)"
proof -
  let ?ip = "takeWhile is_digit s" and ?t = "dropWhile is_digit s"
  have s: "s = ?ip @ ?t" by simp
  from assms(1) have all: "?ip \<noteq> [] \<and> (hd ?ip = CHR ''0'' \<longrightarrow> ?ip = ''0'') \<and>
         (case ?t of
            [] \<Rightarrow> False
          | c # u \<Rightarrow>
              if c = CHR ''.'' then
                takeWhile is_digit u \<noteq> [] \<and>
                (dropWhile is_digit u = [] \<or> exponent_ok (dropWhile is_digit u))
              else exponent_ok ?t)"
    unfolding mantissa_ok_def Let_def .
  then have ip: "?ip \<noteq> []" "hd ?ip = CHR ''0'' \<longrightarrow> ?ip = ''0''" by blast+
  from all have t: "?t \<noteq> []" by (cases ?t) simp_all
  have ipd: "list_all is_digit ?ip"
    by (simp add: list_all_iff) (meson set_takeWhileD)
  from t obtain d u where tu: "?t = d # u" by (cases ?t) auto
  from hd_dropWhile_not [OF t] tu have dn: "\<not> is_digit d" by simp
  have int_part: "scan_int_part (?ip @ d # (u @ c # rest)) = Some (?ip, d # (u @ c # rest))"
    by (rule scan_int_part_digits [OF ip(1) ipd ip(2) dn])
  show ?thesis
  proof (cases "d = CHR ''.''")
    case True
    define fr where "fr = takeWhile is_digit u"
    define e where "e = dropWhile is_digit u"
    from all tu True have fr: "fr \<noteq> []" and e: "e = [] \<or> exponent_ok e"
      by (simp_all add: fr_def e_def)
    have frd: "list_all is_digit fr"
      unfolding fr_def by (simp add: list_all_iff) (meson set_takeWhileD)
    have u: "u = fr @ e" by (simp add: fr_def e_def)
    have next_char: "\<not> is_digit (hd (e @ c # rest))"
    proof (cases "e = []")
      case True
      then show ?thesis using not_digit_end [OF assms(2)] by simp
    next
      case False
      with e have "exponent_ok e" by simp
      then show ?thesis by (rule exponent_ok_scan(3) [OF _ assms(2)])
    qed
    have "e @ c # rest \<noteq> []" by simp
    then obtain y ys where ey: "e @ c # rest = y # ys" by (cases "e @ c # rest") auto
    with next_char have yn: "\<not> is_digit y" by simp
    from span_digits [OF frd yn, of ys] ey
    have sp: "takeWhile is_digit (fr @ e @ c # rest) = fr"
      "dropWhile is_digit (fr @ e @ c # rest) = e @ c # rest"
      by simp_all
    have frac: "scan_fraction ((d # fr) @ e @ c # rest) = (d # fr, e @ c # rest)"
      using fr by (simp add: scan_fraction_def True sp)
    have ex: "scan_exponent (e @ c # rest) = (e, c # rest)"
    proof (cases "e = []")
      case True
      then show ?thesis using scan_tail_end(2) [OF assms(2)] by simp
    next
      case False
      with e have "exponent_ok e" by simp
      then show ?thesis by (rule exponent_ok_scan(1) [OF _ assms(2)])
    qed
    have "s = ?ip @ (d # fr) @ e" using s tu u by (metis append_Cons)
    moreover have "scan_int_part (s @ c # rest) = Some (?ip, (d # fr) @ e @ c # rest)"
      using int_part s tu u by (metis append_Cons append_assoc)
    ultimately show ?thesis using frac ex by blast
  next
    case False
    with all tu have e: "exponent_ok ?t"
      by simp
    have "s = ?ip @ [] @ ?t" by simp
    moreover have "scan_int_part (s @ c # rest) = Some (?ip, [] @ ?t @ c # rest)"
      using int_part s tu by (metis append_Cons append_assoc append_Nil)
    moreover have "scan_fraction ([] @ ?t @ c # rest) = ([], ?t @ c # rest)"
      using exponent_ok_scan(2) [OF e assms(2)] by simp
    moreover have "scan_exponent (?t @ c # rest) = (?t, c # rest)"
      using exponent_ok_scan(1) [OF e assms(2)] .
    moreover have "?t \<noteq> []" by (rule t)
    ultimately show ?thesis by blast
  qed
qed

lemma mantissa_ok_hd: "mantissa_ok s \<Longrightarrow> s \<noteq> [] \<and> hd s \<noteq> CHR ''-''"
  by (cases s) (auto simp: mantissa_ok_def Let_def is_digit_def)

lemma scan_number_float:
  assumes "float_repr r" and "c = CHR '','' \<or> c = CHR 0x0A"
  shows "scan_number (r @ c # rest) = Some (JFloat r, c # rest)"
proof -
  from assms(1) obtain sg s where r: "r = sg @ s" and m: "mantissa_ok s"
    and sign: "scan_sign (r @ c # rest) = (sg, s @ c # rest)"
  proof (cases r)
    case Nil
    with assms(1) show ?thesis by (simp add: float_repr_def)
  next
    case (Cons x xs)
    show ?thesis
    proof (cases "x = CHR ''-''")
      case True
      with Cons assms(1) have "mantissa_ok xs" by (simp add: float_repr_def)
      moreover have "r = ''-'' @ xs" using Cons True by simp
      moreover have "scan_sign (r @ c # rest) = (''-'', xs @ c # rest)"
        using Cons True by (simp add: scan_sign_def)
      ultimately show ?thesis using that by blast
    next
      case False
      with Cons assms(1) have "mantissa_ok r" by (simp add: float_repr_def)
      moreover have "r = [] @ r" by simp
      moreover have "scan_sign (r @ c # rest) = ([], r @ c # rest)"
        using Cons False by (simp add: scan_sign_def)
      ultimately show ?thesis using that by blast
    qed
  qed
  from mantissa_ok_scan [OF m assms(2), of rest] obtain ip frac ex where
    s: "s = ip @ frac @ ex" and ne: "frac \<noteq> [] \<or> ex \<noteq> []"
    and p: "scan_int_part (s @ c # rest) = Some (ip, frac @ ex @ c # rest)"
      "scan_fraction (frac @ ex @ c # rest) = (frac, ex @ c # rest)"
      "scan_exponent (ex @ c # rest) = (ex, c # rest)"
    by blast
  have "sg @ ip @ frac @ ex = r" by (simp add: r s)
  with ne show ?thesis
    by (auto simp: scan_number_def sign p Let_def)
qed

subsection \<open>Values\<close>

lemma parse_value_number:
  assumes "s = d # ds" and "d = CHR ''-'' \<or> is_digit d" and "scan_number s = Some res"
  shows "parse_value (Suc n) s = Some res"
proof -
  from assms(2) have "d \<noteq> quote" "d \<noteq> CHR ''{''" "d \<noteq> CHR ''[''" "d \<noteq> CHR ''n''"
    "d \<noteq> CHR ''t''" "d \<noteq> CHR ''f''"
    by (auto simp: is_digit_def quote_def)
  with assms(1,3) show ?thesis
    by (simp add: starts_with_def)
qed

lemma str_int_head: "\<exists>d ds. str_int i = d # ds \<and> (d = CHR ''-'' \<or> is_digit d)"
proof (cases "i < 0")
  case True
  then show ?thesis by (simp add: str_int_def)
next
  case False
  from decimal_str_nat [of "nat i"] obtain d ds where "str_nat (nat i) = d # ds" "is_digit d"
    by (cases "str_nat (nat i)") (auto simp: decimal_def)
  with False show ?thesis by (simp add: str_int_def)
qed

lemma float_repr_head:
  assumes "float_repr r"
  shows "\<exists>d ds. r = d # ds \<and> (d = CHR ''-'' \<or> is_digit d)"
proof -
  from assms obtain d ds where r: "r = d # ds" by (cases r) (auto simp: float_repr_def)
  show ?thesis
  proof (cases "d = CHR ''-''")
    case True
    with r show ?thesis by simp
  next
    case False
    with assms r have "takeWhile is_digit r \<noteq> []"
      by (simp add: float_repr_def mantissa_ok_def Let_def)
    with r have "is_digit d" by (auto split: if_splits)
    with r show ?thesis by simp
  qed
qed

lemma float_repr_finite: "float_repr r \<Longrightarrow> encode_float r = r"
proof -
  assume r: "float_repr r"
  have "\<not> float_repr ''nan''" "\<not> float_repr ''inf''" "\<not> float_repr ''-inf''"
    by (simp_all add: float_repr_def mantissa_ok_def is_digit_def)
  with r have "r \<noteq> ''nan''" "r \<noteq> ''inf''" "r \<noteq> ''-inf''" by auto
  then show ?thesis by (simp add: encode_float_def)
qed

lemma parse_value_finite:
  assumes "finite_float v" and "c = CHR '','' \<or> c = CHR 0x0A"
  shows "parse_value (Suc n) (encode_value v @ c # rest) = Some (json_of_pyval v, c # rest)"
proof (cases v)
  case PNone
  then show ?thesis by (simp add: starts_with_def quote_def)
next
  case (PBool b)
  then show ?thesis by (simp add: starts_with_def quote_def)
next
  case (PInt i)
  from str_int_head [of i] obtain d ds where h: "str_int i = d # ds" "d = CHR ''-'' \<or> is_digit d"
    by blast
  have "parse_value (Suc n) (str_int i @ c # rest) = Some (JInt i, c # rest)"
    by (rule parse_value_number [OF _ h(2) scan_number_int [OF assms(2)]]) (simp add: h(1))
  with PInt show ?thesis by simp
next
  case (PFloat r)
  with assms(1) have fr: "float_repr r" by (simp add: finite_float_def)
  from float_repr_head [OF fr] obtain d ds where h: "r = d # ds" "d = CHR ''-'' \<or> is_digit d"
    by blast
  have "parse_value (Suc n) (r @ c # rest) = Some (JFloat r, c # rest)"
    by (rule parse_value_number [OF _ h(2) scan_number_float [OF fr assms(2)]]) (simp add: h(1))
  with PFloat fr show ?thesis by (simp add: float_repr_finite)
next
  case (PStr s)
  then show ?thesis
    using scan_string_escape [of s "c # rest"] by (simp add: encode_basestring_def)
next
  case (PDatetime d)
  then show ?thesis
    using scan_string_escape [of "str_datetime d" "c # rest"]
    by (simp add: encode_basestring_def)
qed

lemma encode_value_finite_head: "finite_float v \<Longrightarrow> \<exists>d ds. encode_value v = d # ds \<and> \<not> is_ws d"
proof (cases v)
  case (PInt i)
  from str_int_head [of i] obtain d ds where "str_int i = d # ds" "d = CHR ''-'' \<or> is_digit d"
    by blast
  with PInt show ?thesis by (auto simp: is_ws_def is_digit_def)
next
  case (PFloat r)
  assume "finite_float v"
  with PFloat have fr: "float_repr r" by (simp add: finite_float_def)
  from float_repr_head [OF fr] obtain d ds where "r = d # ds" "d = CHR ''-'' \<or> is_digit d"
    by blast
  with PFloat fr show ?thesis by (auto simp: float_repr_finite is_ws_def is_digit_def)
qed (simp_all add: encode_basestring_def is_ws_def quote_def)

lemma scan_number_letter:
  "scan_number (CHR ''N'' # s) = None" "scan_number (CHR ''I'' # s) = None"
  "scan_number (CHR ''-'' # CHR ''I'' # s) = None"
  by (simp_all add: scan_number_def scan_sign_def scan_int_part_def is_digit_def Let_def)

lemma parse_value_nonfinite:
  "parse_value (Suc n) (''NaN'' @ rest) = Some (JFloat ''nan'', rest)"
  "parse_value (Suc n) (''Infinity'' @ rest) = Some (JFloat ''inf'', rest)"
  "parse_value (Suc n) (''-Infinity'' @ rest) = Some (JFloat ''-inf'', rest)"
  by (simp_all add: scan_number_letter starts_with_def quote_def)

lemma parse_value_scalar:
  assumes "float_value v" and "c = CHR '','' \<or> c = CHR 0x0A"
  shows "parse_value (Suc n) (encode_value v @ c # rest) = Some (json_of_pyval v, c # rest)"
proof (cases "finite_float v")
  case True
  then show ?thesis using assms(2) by (rule parse_value_finite)
next
  case False
  with assms(1) obtain r where v: "v = PFloat r" and r: "r = ''nan'' \<or> r = ''inf'' \<or> r = ''-inf''"
    by (cases v) (auto simp: float_value_def finite_float_def float_text_def)
  from r show ?thesis
    unfolding v using parse_value_nonfinite [of n "c # rest"]
    by (auto simp: encode_float_def simp del: parse_value.simps)
qed

lemma encode_value_head:
  assumes "float_value v"
  shows "\<exists>d ds. encode_value v = d # ds \<and> \<not> is_ws d"
proof (cases "finite_float v")
  case True
  then show ?thesis by (rule encode_value_finite_head)
next
  case False
  with assms(1) obtain r where v: "v = PFloat r" and r: "r = ''nan'' \<or> r = ''inf'' \<or> r = ''-inf''"
    by (cases v) (auto simp: float_value_def finite_float_def float_text_def)
  from r show ?thesis
    unfolding v by (auto simp: encode_float_def is_ws_def)
qed

subsection \<open>Dictionaries\<close>

lemma skip_ws_spaces: "\<not> is_ws x \<Longrightarrow> skip_ws (replicate m CHR '' '' @ x # s) = x # s"
  by (induction m) (simp_all add: skip_ws_def is_ws_def)

lemma skip_ws_newline_indent:
  "\<not> is_ws x \<Longrightarrow> skip_ws (newline_indent k @ x # s) = x # s"
  using skip_ws_spaces [of x "2 * k" s]
  by (simp add: newline_indent_def skip_ws_def is_ws_def)

lemma skip_ws_none: "\<not> is_ws x \<Longrightarrow> skip_ws (x # s) = x # s"
  by (simp add: skip_ws_def)

lemma not_ws: "\<not> is_ws quote" "\<not> is_ws CHR ''{''" "\<not> is_ws CHR ''}''" "\<not> is_ws CHR '']''"
  "\<not> is_ws CHR '',''" "\<not> is_ws CHR '':''" "\<not> is_ws CHR ''[''"
  by (simp_all add: is_ws_def quote_def)

lemma encode_items_Cons:
  "encode_items f sep (x # xs) = f x @ (if xs = [] then [] else sep @ encode_items f sep xs)"
  by (cases xs) simp_all

lemma json_set_fresh: "k \<notin> fst ` set a \<Longrightarrow> json_set a k v = a @ [(k, v)]"
  by (induction a) auto

lemma fold_json_set:
  assumes "distinct (map fst d)" and "fst ` set d \<inter> fst ` set acc = {}"
  shows "fold (\<lambda>m a. json_set a (fst m) (json_of_pyval (snd m))) d acc
           = acc @ map json_of_member d"
  using assms
proof (induction d arbitrary: acc)
  case Nil
  then show ?case by simp
next
  case (Cons m d)
  from Cons.prems have fresh: "fst m \<notin> fst ` set acc" by auto
  from Cons.prems have "distinct (map fst d)"
    and "fst ` set d \<inter> fst ` set (acc @ [(fst m, json_of_pyval (snd m))]) = {}"
    by auto
  from Cons.IH [OF this] fresh show ?case
    by (simp add: json_set_fresh json_of_member_def)
qed

lemma encode_member_text:
  "encode_member m =
     quote # concat (map escape_char (fst m)) @ quote # '': '' @ encode_value (snd m)"
  by (simp add: encode_member_def encode_basestring_def)

lemma encode_items_members:
  "d \<noteq> [] \<Longrightarrow>
     encode_items encode_member (CHR '','' # newline_indent 2) d = quote # members_text d"
  by (cases d) (simp_all add: members_text_def encode_items_Cons encode_member_text)

lemma members_text_Cons:
  "members_text (m # d) =
     concat (map escape_char (fst m)) @ quote # '': '' @ encode_value (snd m)
     @ (if d = [] then [] else CHR '','' # newline_indent 2 @ quote # members_text d)"
proof (cases "d = []")
  case True
  then show ?thesis by (simp add: members_text_def encode_member_text)
next
  case False
  have "members_text (m # d) =
      tl (encode_member m @ CHR '','' # newline_indent 2
          @ encode_items encode_member (CHR '','' # newline_indent 2) d)"
    unfolding members_text_def using False by (subst encode_items_Cons) simp
  also have "\<dots> = concat (map escape_char (fst m)) @ quote # '': '' @ encode_value (snd m)
      @ CHR '','' # newline_indent 2 @ encode_items encode_member (CHR '','' # newline_indent 2) d"
    by (simp add: encode_member_text)
  finally show ?thesis using False by (simp add: encode_items_members)
qed


lemma parse_object_members:
  assumes "d \<noteq> []" and "float_values d" and "length d < fuel"
  shows "parse_object fuel (members_text d @ newline_indent 1 @ CHR ''}'' # rest) acc =
           Some (JObj (fold (\<lambda>m a. json_set a (fst m) (json_of_pyval (snd m))) d acc), rest)"
proof -
  define close where "close = newline_indent 1 @ CHR ''}'' # rest"
  have close: "skip_ws close = CHR ''}'' # rest"
    unfolding close_def by (rule skip_ws_newline_indent) (rule not_ws)
  obtain t where close_head: "close = CHR 0x0A # t"
    by (simp add: close_def newline_indent_def)
  have "parse_object fuel (members_text d @ close) acc =
      Some (JObj (fold (\<lambda>m a. json_set a (fst m) (json_of_pyval (snd m))) d acc), rest)"
    using assms
  proof (induction d arbitrary: acc fuel)
    case Nil
    then show ?case by simp
  next
    case (Cons m d)
    from Cons.prems(3) obtain n where fuel: "fuel = Suc (Suc n)" and n: "length d \<le> n"
      by (cases fuel; cases "fuel - 1") auto
    from Cons.prems(2) have fm: "float_value (snd m)" and fd: "float_values d"
      by (simp_all add: float_values_def)
    let ?v = "json_of_pyval (snd m)"
    define more where "more = newline_indent 2 @ quote # members_text d @ close"
    define tail where "tail = (if d = [] then close else CHR '','' # more)"
    have shape: "members_text (m # d) @ close =
        concat (map escape_char (fst m)) @ quote # CHR '':'' # CHR '' '' # encode_value (snd m) @ tail"
      by (simp add: members_text_Cons tail_def more_def)
    obtain c t' where tail: "tail = c # t'" and c: "c = CHR '','' \<or> c = CHR 0x0A"
      by (cases "d = []") (simp_all add: tail_def close_head)
    from encode_value_head [OF fm] obtain x xs where ev: "encode_value (snd m) = x # xs"
      and x: "\<not> is_ws x" by blast
    have key: "scan_string (concat (map escape_char (fst m)) @ quote
          # CHR '':'' # CHR '' '' # encode_value (snd m) @ tail)
        = Some (fst m, CHR '':'' # CHR '' '' # encode_value (snd m) @ tail)"
      by (rule scan_string_escape)
    have colon: "skip_ws (CHR '':'' # CHR '' '' # encode_value (snd m) @ tail)
        = CHR '':'' # CHR '' '' # encode_value (snd m) @ tail"
      by (rule skip_ws_none) (rule not_ws)
    have space: "skip_ws (CHR '' '' # encode_value (snd m) @ tail) = encode_value (snd m) @ tail"
      using skip_ws_spaces [OF x, of 1 "xs @ tail"] by (simp add: ev)
    have val: "parse_value (Suc n) (encode_value (snd m) @ tail) = Some (?v, tail)"
      unfolding tail by (rule parse_value_scalar [OF fm c])
    show ?case
    proof (cases "d = []")
      case True
      then have "skip_ws tail = CHR ''}'' # rest"
        by (simp add: tail_def close)
      with True show ?thesis
        unfolding shape fuel
        by (subst parse_object.simps)
          (simp add: key colon space val del: parse_value.simps parse_object.simps)
    next
      case False
      then have t1: "skip_ws tail = CHR '','' # more"
        by (simp add: tail_def skip_ws_none not_ws)
      have t2: "skip_ws more = quote # members_text d @ close"
        unfolding more_def by (rule skip_ws_newline_indent) (rule not_ws)
      from False n have "length d < Suc n" by simp
      note ih = Cons.IH [OF False fd this, of "json_set acc (fst m) ?v"]
      show ?thesis
        unfolding shape fuel
        by (subst parse_object.simps)
          (simp add: key colon space val t1 t2 ih del: parse_value.simps parse_object.simps)
    qed
  qed
  then show ?thesis by (simp only: close_def)
qed

lemma encode_dict_head: "\<exists>t. encode_dict level d = CHR ''{'' # t"
  by (simp add: encode_dict_def)

lemma encode_dict_1:
  "encode_dict 1 d =
     (if d = [] then ''{}''
      else CHR ''{'' # newline_indent 2
           @ encode_items encode_member (CHR '','' # newline_indent 2) d
           @ newline_indent 1 @ ''}'')"
  by (simp add: encode_dict_def numeral_2_eq_2)

lemma parse_value_dict:
  assumes "distinct (map fst d)" and "float_values d" and "length d + 2 \<le> fuel"
  shows "parse_value fuel (encode_dict 1 d @ rest) = Some (json_of_record d, rest)"
proof -
  from assms(3) obtain n where fuel: "fuel = Suc n" and n: "length d < n"
    by (cases fuel) auto
  show ?thesis
  proof (cases "d = []")
    case True
    then have shape: "encode_dict 1 d @ rest = CHR ''{'' # CHR ''}'' # rest"
      by (simp add: encode_dict_def)
    have sk: "skip_ws (CHR ''}'' # rest) = CHR ''}'' # rest"
      by (rule skip_ws_none) (rule not_ws)
    show ?thesis
      unfolding shape fuel
      by (subst parse_value.simps)
        (simp add: sk True json_of_record_def quote_def
          del: parse_value.simps parse_object.simps)
  next
    case False
    define body where "body = members_text d @ newline_indent 1 @ CHR ''}'' # rest"
    define start where "start = newline_indent 2 @ quote # body"
    have shape: "encode_dict 1 d @ rest = CHR ''{'' # start"
      unfolding encode_dict_1 body_def start_def
      using False by (simp add: encode_items_members)
    have sk: "skip_ws start = quote # body"
      unfolding start_def by (rule skip_ws_newline_indent) (rule not_ws)
    have members: "fold (\<lambda>m a. json_set a (fst m) (json_of_pyval (snd m))) d [] = [] @ map json_of_member d"
      by (rule fold_json_set) (simp_all add: assms(1))
    have obj: "parse_object n body [] = Some (JObj (map json_of_member d), rest)"
      unfolding body_def using parse_object_members [OF False assms(2) n, of rest "[]"] members
      by simp
    show ?thesis
      unfolding shape fuel
      by (subst parse_value.simps)
        (simp add: sk obj quote_def json_of_record_def del: parse_value.simps parse_object.simps)
  qed
qed

lemma encode_items_head:
  assumes "xs \<noteq> []" and "\<And>x. \<exists>t. f x = c # t"
  shows "\<exists>t. encode_items f sep xs @ s = c # t"
proof -
  from assms(1) obtain x ys where xs: "xs = x # ys" by (cases xs) auto
  from assms(2) obtain t where "f x = c # t" by blast
  then show ?thesis by (simp add: xs encode_items_Cons)
qed

lemma parse_array_items:
  assumes "xs \<noteq> []" and "list_all (\<lambda>d. distinct (map fst d)) xs"
    and "list_all float_values xs"
    and "sum_list (map (\<lambda>d. Suc (length d)) xs) + 2 \<le> fuel"
  shows "parse_array fuel
           (encode_items (encode_dict 1) (CHR '','' # newline_indent 1) xs
              @ newline_indent 0 @ CHR '']'' # rest) acc
         = Some (JArr (acc @ map json_of_record xs), rest)"
proof -
  define close where "close = newline_indent 0 @ CHR '']'' # rest"
  define sep where "sep = CHR '','' # newline_indent 1"
  define enc where "enc = encode_dict 1"
  have close: "skip_ws close = CHR '']'' # rest"
    unfolding close_def by (rule skip_ws_newline_indent) (rule not_ws)
  have enc_head: "\<exists>t. enc x = CHR ''{'' # t" for x
    unfolding enc_def by (rule encode_dict_head)
  have "parse_array fuel (encode_items enc sep xs @ close) acc
      = Some (JArr (acc @ map json_of_record xs), rest)"
    using assms
  proof (induction xs arbitrary: acc fuel)
    case Nil
    then show ?case by simp
  next
    case (Cons d xs)
    from Cons.prems(4) obtain n where fuel: "fuel = Suc n"
      and n: "sum_list (map (\<lambda>d. Suc (length d)) xs) + length d + 2 \<le> n"
      by (cases fuel) auto
    from Cons.prems(2,3) have dd: "distinct (map fst d)" and fd: "float_values d"
      and dxs: "list_all (\<lambda>d. distinct (map fst d)) xs" and fxs: "list_all float_values xs"
      by simp_all
    from n have "length d + 2 \<le> n" by simp
    then have val: "parse_value n (enc d @ r) = Some (json_of_record d, r)" for r
      unfolding enc_def using dd fd by (intro parse_value_dict)
    show ?case
    proof (cases "xs = []")
      case True
      have shape: "encode_items enc sep (d # xs) @ close = enc d @ close"
        by (simp add: True)
      show ?thesis
        unfolding shape fuel
        by (subst parse_array.simps)
          (simp add: val close True del: parse_value.simps parse_array.simps)
    next
      case False
      define more where "more = encode_items enc sep xs @ close"
      define tail where "tail = newline_indent 1 @ more"
      have shape: "encode_items enc sep (d # xs) @ close = enc d @ CHR '','' # tail"
        using False by (simp add: encode_items_Cons sep_def tail_def more_def)
      from encode_items_head [where f = enc and sep = sep and s = close, OF False enc_head]
      obtain t where more_head: "more = CHR ''{'' # t"
        unfolding more_def by blast
      have t1: "skip_ws (CHR '','' # tail) = CHR '','' # tail"
        by (rule skip_ws_none) (rule not_ws)
      have t2: "skip_ws tail = more"
        unfolding tail_def more_head by (rule skip_ws_newline_indent) (rule not_ws)
      from n have "sum_list (map (\<lambda>d. Suc (length d)) xs) + 2 \<le> n" by simp
      note ih = Cons.IH [OF False dxs fxs this, of "acc @ [json_of_record d]", folded more_def]
      show ?thesis
        unfolding shape fuel
        by (subst parse_array.simps)
          (simp add: val t1 t2 ih del: parse_value.simps parse_array.simps)
    qed
  qed
  then show ?thesis by (simp only: close_def sep_def enc_def)
qed

lemma encode_items_length:
  assumes "\<And>x. x \<in> set xs \<Longrightarrow> g x \<le> length (f x)"
  shows "sum_list (map g xs) \<le> length (encode_items f sep xs)"
  using assms
proof (induction f sep xs rule: encode_items.induct)
  case (3 f sep x y ys)
  from 3(2) [of x] have "g x \<le> length (f x)" by simp
  moreover from 3(1) 3(2) have "sum_list (map g (y # ys)) \<le> length (encode_items f sep (y # ys))"
    by simp
  ultimately show ?case by simp
qed simp_all

lemma encode_member_length: "1 \<le> length (encode_member m)"
  by (simp add: encode_member_def)

lemma encode_dict_length: "Suc (Suc (length d)) \<le> length (encode_dict level d)"
proof (cases "d = []")
  case True
  then show ?thesis by (simp add: encode_dict_def)
next
  case False
  define items where
    "items = encode_items encode_member (CHR '','' # newline_indent (level + 1)) d"
  have "sum_list (map (\<lambda>m. 1) d) \<le> length items"
    unfolding items_def by (rule encode_items_length) (rule encode_member_length)
  moreover have "sum_list (map (\<lambda>m. 1::nat) d) = length d"
    by (induction d) simp_all
  moreover have "encode_dict level d
      = ''{'' @ newline_indent (level + 1) @ items @ newline_indent level @ ''}''"
    unfolding items_def encode_dict_def using False by simp
  ultimately show ?thesis by simp
qed

lemma encode_list_length:
  assumes "xs \<noteq> []"
  shows "sum_list (map (\<lambda>d. Suc (length d)) xs) + 3 \<le> length (encode_list xs)"
proof -
  define items where
    "items = encode_items (encode_dict 1) (CHR '','' # newline_indent 1) xs"
  have "sum_list (map (\<lambda>d. Suc (length d)) xs) \<le> length items"
    unfolding items_def
  proof (rule encode_items_length)
    fix x show "Suc (length x) \<le> length (encode_dict 1 x)"
      using encode_dict_length [of x 1] by simp
  qed
  moreover have "encode_list xs = ''['' @ newline_indent 1 @ items @ newline_indent 0 @ '']''"
    unfolding items_def encode_list_def using assms by simp
  ultimately show ?thesis by (simp add: newline_indent_def)
qed

lemma json_loads_encode_list:
  assumes "list_all (\<lambda>d. distinct (map fst d)) xs" and "list_all float_values xs"
  shows "json_loads (encode_list xs) = Some (json_of_list xs)"
proof (cases "xs = []")
  case True
  then show ?thesis
    by (simp add: json_loads_def encode_list_def json_of_list_def skip_ws_def is_ws_def quote_def)
next
  case False
  define body where "body = encode_items (encode_dict 1) (CHR '','' # newline_indent 1) xs
      @ newline_indent 0 @ CHR '']'' # []"
  define start where "start = newline_indent 1 @ body"
  have shape: "encode_list xs = CHR ''['' # start"
    unfolding encode_list_def start_def body_def using False by simp
  from encode_list_length [OF False] obtain n where len: "length (CHR ''['' # start) = Suc n"
    and n: "sum_list (map (\<lambda>d. Suc (length d)) xs) + 2 \<le> n"
    unfolding shape by (cases "length (CHR ''['' # start)") auto
  from encode_items_head [where f = "encode_dict 1" and sep = "CHR '','' # newline_indent 1"
      and s = "newline_indent 0 @ CHR '']'' # []", OF False encode_dict_head]
  obtain t where body_head: "body = CHR ''{'' # t"
    unfolding body_def by blast
  have s0: "skip_ws (CHR ''['' # start) = CHR ''['' # start"
    by (rule skip_ws_none) (rule not_ws)
  have s1: "skip_ws start = CHR ''{'' # t"
    unfolding start_def body_head by (rule skip_ws_newline_indent) (rule not_ws)
  have arr: "parse_array n (CHR ''{'' # t) [] = Some (JArr (map json_of_record xs), [])"
    using parse_array_items [OF False assms n, of "[]" "[]"]
    unfolding body_head [symmetric] body_def by simp
  have "parse_value (Suc n) (CHR ''['' # start) = Some (JArr (map json_of_record xs), [])"
    by (subst parse_value.simps)
      (simp add: s1 arr quote_def del: parse_value.simps parse_array.simps)
  then show ?thesis
    unfolding json_loads_def shape s0 len
    by (simp add: json_of_list_def skip_ws_def del: parse_value.simps)
qed
subsection \<open>The keys of the records of the report\<close>

lemma dict_set_keys: "fst ` set (dict_set d k v) = insert k (fst ` set d)"
proof (induction d)
  case Nil
  then show ?case by simp
next
  case (Cons m d)
  obtain k' v' where m: "m = (k', v')" by (cases m)
  show ?case
  proof (cases "k' = k")
    case True
    then show ?thesis by (simp add: m)
  next
    case False
    with Cons.IH show ?thesis by (simp add: m insert_commute)
  qed
qed

lemma dict_set_distinct: "distinct (map fst d) \<Longrightarrow> distinct (map fst (dict_set d k v))"
  by (induction d) (auto simp: dict_set_keys)

lemma dict_display_distinct:
  "dict_display es acc = Inr r \<Longrightarrow> distinct (map fst acc) \<Longrightarrow> distinct (map fst r)"
proof (induction es arbitrary: acc)
  case Nil
  then show ?case by simp
next
  case (Cons e es)
  obtain k x where e: "e = (k, x)" by (cases e)
  with Cons.prems(1) obtain v where "x = Inr v" and "dict_display es (dict_set acc k v) = Inr r"
    by (cases x) simp_all
  from Cons.IH [OF this(2) dict_set_distinct [OF Cons.prems(2)]] show ?case .
qed

lemma entry_keys_distinct:
  "ec2_entry region ri = Inr r \<Longrightarrow> distinct (map fst r)"
  "rds_entry region ri = Inr r \<Longrightarrow> distinct (map fst r)"
  "sp_entry region ri = Inr r \<Longrightarrow> distinct (map fst r)"
  unfolding ec2_entry_def rds_entry_def sp_entry_def
  by (erule dict_display_distinct, simp)+

lemma fetcher_keys_distinct:
  assumes "r \<in> set rs"
  shows "fst (get_ec2_reserved_instances session region st) = Inr rs \<Longrightarrow> distinct (map fst r)"
    and "fst (get_rds_reserved_instances session region st) = Inr rs \<Longrightarrow> distinct (map fst r)"
    and "fst (get_savings_plans session region st) = Inr rs \<Longrightarrow> distinct (map fst r)"
proof -
  assume "fst (get_ec2_reserved_instances session region st) = Inr rs"
  from returned_entries [OF this [unfolded get_ec2_reserved_instances_def]] assms
  show "distinct (map fst r)" by (auto dest: entry_keys_distinct)
next
  assume "fst (get_rds_reserved_instances session region st) = Inr rs"
  from returned_entries [OF this [unfolded get_rds_reserved_instances_def]] assms
  show "distinct (map fst r)" by (auto dest: entry_keys_distinct)
next
  assume "fst (get_savings_plans session region st) = Inr rs"
  from returned_entries [OF this [unfolded get_savings_plans_def]] assms
  show "distinct (map fst r)" by (auto dest: entry_keys_distinct)
qed

lemma returned_keys_distinct:
  "r \<in> set (returned (get_ec2_reserved_instances session region s)) \<Longrightarrow> distinct (map fst r)"
  "r \<in> set (returned (get_rds_reserved_instances session region s)) \<Longrightarrow> distinct (map fst r)"
  "r \<in> set (returned (get_savings_plans session region s)) \<Longrightarrow> distinct (map fst r)"
  by (auto simp: returned_def split: sum.splits dest: fetcher_keys_distinct)

lemma main_collect_keys_distinct:
  assumes "main_collect session regions [] {} st = (Inr (all_reservations, rwd), st')"
  shows "list_all (\<lambda>d. distinct (map fst d)) all_reservations"
  unfolding main_collect_concat [OF assms(1), of st] list_all_iff
  by (auto dest: returned_keys_distinct)

subsection \<open>The example report\<close>

lemma example_report_dicts: "list_all python_dict example_report"
  by (simp add: example_report_def python_dict_def float_values_def float_value_def
      float_text_def float_repr_def mantissa_ok_def exponent_ok_def decimal_def is_digit_def
      Let_def)

lemma example_datetime_str: "str_datetime example_datetime = ''2024-03-07 09:05:00+00:00''"
  by (simp add: str_datetime_def example_datetime_def str_offset_def zfill2 str_nat4
      digit_def) (simp add: zfill_def)

lemma example_report_encoded: "encode_list example_report = example_report_text"
  by (simp add: example_report_def example_report_text_def encode_list_def encode_dict_def
      encode_member_def encode_basestring_def escape_char_def encode_float_def
      newline_indent_def example_datetime_str str_int_def str_nat_small digit_def
      quote_def backslash_def numeral_2_eq_2)

lemma example_all_dicts: "list_all python_dict example_all"
proof -
  have "list_all (\<lambda>d. distinct (map fst d)) example_all"
    by (rule main_collect_keys_distinct [OF main_collect_example])
  moreover have "list_all float_values example_all"
    by (simp add: example_all_def example_ec2_record_def example_rds_record_def
        example_sp_record_def float_values_def float_value_def)
  ultimately show ?thesis by (simp add: python_dict_def list_all_iff)
qed

section \<open>Claim C1: the Region of a record\<close>

text \<open>
  Claim C1 says that every record returned by a fetcher called with a region holds that
  region under \<^verbatim>\<open>Region\<close>. The compute and the database fetcher do so
  (\<open>ec2_entry_region\<close>, \<open>rds_entry_region\<close>). The display of the savings plans fetcher writes
  the key \<^verbatim>\<open>Region\<close> a second time, with \<^verbatim>\<open>sp.get('region', 'N/A')\<close>, and the second value
  replaces the first (\<open>sp_entry_region\<close>). The code at the example session, whose savings
  plan has no member \<^verbatim>\<open>region\<close>: called with \<^verbatim>\<open>us-east-1\<close>, the fetcher returns a record
  whose \<^verbatim>\<open>Region\<close> is \<^verbatim>\<open>N/A\<close>.
\<close>

theorem get_savings_plans_region_overwritten:
  "describe_savings_plans example_session ''us-east-1'' = Inr (Some [example_plan]) \<and>
   dict_get example_plan ''region'' = None \<and>
   fst (get_savings_plans example_session ''us-east-1'' initial_state) =
     Inr [example_sp_record] \<and>
   dict_get example_sp_record ''Region'' = Some (PStr ''N/A'') \<and>
   dict_get example_sp_record ''Region'' \<noteq> Some (PStr ''us-east-1'')"
  by (simp add: example_session_simps get_savings_plans_example)
    (simp add: dict_get_def example_plan_def example_sp_record_def)

section \<open>Claim C2: the region index\<close>

lemma fold_print: "fold (\<lambda>x. print (f x)) xs st = st\<lparr>stdout := stdout st @ map f xs\<rparr>"
  by (induction xs arbitrary: st) (simp_all add: print_def)

text \<open>
  The index prints one line for each region with data, in the sorted order of the
  regions, and the count of a line is the number of aggregated records whose
  \<^verbatim>\<open>Region\<close> is that region.
\<close>

lemma main_region_index_lines:
  assumes "regions_with_data \<noteq> {}"
  shows "stdout (main_region_index all_reservations regions_with_data st) =
           stdout st @ [banner, ''REGIONS WITH RESERVATIONS'', replicate 80 CHR ''='']
             @ map (index_line all_reservations) (sorted_list_of_set regions_with_data)"
  using assms by (simp add: main_region_index_def fold_print) (simp add: print_def)

lemma example_regions_sorted:
  "sorted_list_of_set {''us-west-2'', ''us-east-1''} = [''us-east-1'', ''us-west-2'']"
  by (simp add: sorted_list_of_set_insert_remove)

text \<open>
  Claim C2 says that the count printed for a region is the number of records collected
  from that region. The code at the example session: the loop collects three records in
  each of the two regions and prints so, and the index prints the count 2 for each
  region, since the record of the savings plan holds \<^verbatim>\<open>N/A\<close> under \<^verbatim>\<open>Region\<close>.
\<close>

theorem main_region_index_undercounts:
  "main_collect example_session example_regions [] {} initial_state =
     (Inr (example_all, {''us-west-2'', ''us-east-1''}), example_final_state) \<and>
   stdout example_final_state =
     [CHR 0x0A # ''Checking region: us-west-2'', ''  Found 3 reservations in us-west-2'',
      CHR 0x0A # ''Checking region: us-east-1'', ''  Found 3 reservations in us-east-1''] \<and>
   stdout (main_region_index example_all {''us-west-2'', ''us-east-1''} example_final_state) =
     stdout example_final_state
     @ [banner, ''REGIONS WITH RESERVATIONS'', replicate 80 CHR ''='',
        ''  us-east-1: 2 reservations'', ''  us-west-2: 2 reservations'']"
proof -
  have counts: "region_count example_all ''us-east-1'' = 2"
    "region_count example_all ''us-west-2'' = 2"
    by (simp_all add: region_count_def example_all_def example_ec2_record_def
        example_rds_record_def example_sp_record_def dict_get_def)
  have "stdout (main_region_index example_all {''us-west-2'', ''us-east-1''}
          example_final_state) =
     stdout example_final_state
     @ [banner, ''REGIONS WITH RESERVATIONS'', replicate 80 CHR ''='',
        ''  us-east-1: 2 reservations'', ''  us-west-2: 2 reservations'']"
    by (subst main_region_index_lines)
      (simp_all add: example_regions_sorted index_line_def counts str_nat_example)
  with main_collect_example show ?thesis
    by (simp add: example_final_state_def)
qed

section \<open>Claim C3: the defaults of absent members\<close>

lemma ec2_entry_defaults:
  assumes "ec2_entry region ri = Inr r"
  shows "ec2_defaults ri r"
proof -
  note get = dict_display_get [OF assms [unfolded ec2_entry_def]]
  show ?thesis
    unfolding ec2_defaults_def filled_def
    by (intro conjI impI; subst get)
      (simp_all add: get_default_def format_datetime_example)
qed

lemma rds_entry_defaults:
  assumes "rds_entry region ri = Inr r"
  shows "rds_defaults ri r"
proof -
  note get = dict_display_get [OF assms [unfolded rds_entry_def]]
  show ?thesis
    unfolding rds_defaults_def filled_def
    by (intro conjI impI; subst get)
      (simp_all add: get_default_def format_datetime_example)
qed

lemma sp_entry_defaults:
  assumes "sp_entry region sp = Inr r"
  shows "sp_defaults sp r"
proof -
  note get = dict_display_get [OF assms [unfolded sp_entry_def]]
  show ?thesis
    unfolding sp_defaults_def filled_def
    by (intro conjI impI; subst get)
      (simp_all add: get_default_def format_datetime_example)
qed

text \<open>
  Claim C3, as the code has it. In the list that a fetcher returns for the items of its
  listing, every record holds, for each optional member that its item lacks, the default
  written in the fetcher. For compute and database reservations the prices
  \<^verbatim>\<open>FixedPrice\<close> and \<^verbatim>\<open>UsagePrice\<close> are 0, \<^verbatim>\<open>CurrencyCode\<close> is \<^verbatim>\<open>USD\<close>, and
  \<^verbatim>\<open>AvailabilityZone\<close> and the dates are \<^verbatim>\<open>N/A\<close>. For savings plans the description, the
  dates, the instance family, the two payment amounts and the term duration are all the
  text \<^verbatim>\<open>N/A\<close>.
\<close>

theorem fetchers_fill_defaults:
  "(describe_reserved_instances session region = Inr (Some items1) \<and>
    fst (get_ec2_reserved_instances session region st) = Inr rs1
      \<longrightarrow> list_all2 ec2_defaults items1 rs1) \<and>
   (describe_reserved_db_instances session region = Inr (Some items2) \<and>
    fst (get_rds_reserved_instances session region st) = Inr rs2
      \<longrightarrow> list_all2 rds_defaults items2 rs2) \<and>
   (describe_savings_plans session region = Inr (Some items3) \<and>
    fst (get_savings_plans session region st) = Inr rs3
      \<longrightarrow> list_all2 sp_defaults items3 rs3)"
proof (intro conjI impI)
  assume "describe_reserved_instances session region = Inr (Some items1) \<and>
    fst (get_ec2_reserved_instances session region st) = Inr rs1"
  then have "append_each (ec2_entry region) items1 [] = Inr rs1"
    using get_ec2_reserved_instances_items [of session region items1 st] by simp
  then have "list_all2 (\<lambda>ri r. ec2_entry region ri = Inr r) items1 rs1"
    by (rule append_each_entries)
  then show "list_all2 ec2_defaults items1 rs1"
    by (rule list_all2_mono) (rule ec2_entry_defaults)
next
  assume "describe_reserved_db_instances session region = Inr (Some items2) \<and>
    fst (get_rds_reserved_instances session region st) = Inr rs2"
  then have "append_each (rds_entry region) items2 [] = Inr rs2"
    using get_rds_reserved_instances_items [of session region items2 st] by simp
  then have "list_all2 (\<lambda>ri r. rds_entry region ri = Inr r) items2 rs2"
    by (rule append_each_entries)
  then show "list_all2 rds_defaults items2 rs2"
    by (rule list_all2_mono) (rule rds_entry_defaults)
next
  assume "describe_savings_plans session region = Inr (Some items3) \<and>
    fst (get_savings_plans session region st) = Inr rs3"
  then have "append_each (sp_entry region) items3 [] = Inr rs3"
    using get_savings_plans_items [of session region items3 st] by simp
  then have "list_all2 (\<lambda>sp r. sp_entry region sp = Inr r) items3 rs3"
    by (rule append_each_entries)
  then show "list_all2 sp_defaults items3 rs3"
    by (rule list_all2_mono) (rule sp_entry_defaults)
qed

text \<open>
  The theorem in the example session: the three items lack every optional member but the
  start of the compute reservation.
\<close>

theorem fetchers_fill_defaults_witness:
  "(describe_reserved_instances example_session ''us-east-1'' = Inr (Some [example_ri]) \<and>
    fst (get_ec2_reserved_instances example_session ''us-east-1'' initial_state) =
      Inr [example_ec2_record ''us-east-1'']) \<and>
   list_all2 ec2_defaults [example_ri] [example_ec2_record ''us-east-1''] \<and>
   (describe_reserved_db_instances example_session ''us-east-1'' = Inr (Some [example_db]) \<and>
    fst (get_rds_reserved_instances example_session ''us-east-1'' initial_state) =
      Inr [example_rds_record ''us-east-1'']) \<and>
   list_all2 rds_defaults [example_db] [example_rds_record ''us-east-1''] \<and>
   (describe_savings_plans example_session ''us-east-1'' = Inr (Some [example_plan]) \<and>
    fst (get_savings_plans example_session ''us-east-1'' initial_state) =
      Inr [example_sp_record]) \<and>
   list_all2 sp_defaults [example_plan] [example_sp_record] \<and>
   dict_get example_ri ''FixedPrice'' = None \<and>
   dict_get (example_ec2_record ''us-east-1'') ''FixedPrice'' = Some (PInt 0) \<and>
   dict_get example_db ''UsagePrice'' = None \<and>
   dict_get (example_rds_record ''us-east-1'') ''UsagePrice'' = Some (PInt 0) \<and>
   dict_get example_plan ''description'' = None \<and>
   dict_get example_sp_record ''Description'' = Some (PStr ''N/A'')"
proof -
  have h1: "describe_reserved_instances example_session ''us-east-1'' = Inr (Some [example_ri]) \<and>
    fst (get_ec2_reserved_instances example_session ''us-east-1'' initial_state) =
      Inr [example_ec2_record ''us-east-1'']"
    by (simp add: example_session_simps get_ec2_reserved_instances_example)
  have h2: "describe_reserved_db_instances example_session ''us-east-1'' = Inr (Some [example_db]) \<and>
    fst (get_rds_reserved_instances example_session ''us-east-1'' initial_state) =
      Inr [example_rds_record ''us-east-1'']"
    by (simp add: example_session_simps get_rds_reserved_instances_example)
  have h3: "describe_savings_plans example_session ''us-east-1'' = Inr (Some [example_plan]) \<and>
    fst (get_savings_plans example_session ''us-east-1'' initial_state) =
      Inr [example_sp_record]"
    by (simp add: example_session_simps get_savings_plans_example)
  have v: "dict_get example_ri ''FixedPrice'' = None"
    "dict_get (example_ec2_record ''us-east-1'') ''FixedPrice'' = Some (PInt 0)"
    "dict_get example_db ''UsagePrice'' = None"
    "dict_get (example_rds_record ''us-east-1'') ''UsagePrice'' = Some (PInt 0)"
    "dict_get example_plan ''description'' = None"
    "dict_get example_sp_record ''Description'' = Some (PStr ''N/A'')"
    by (simp_all add: dict_get_def example_ri_def example_db_def example_plan_def
        example_ec2_record_def example_rds_record_def example_sp_record_def)
  from fetchers_fill_defaults
    [of example_session "''us-east-1''" "[example_ri]" initial_state
      "[example_ec2_record ''us-east-1'']" "[example_db]" "[example_rds_record ''us-east-1'']"
      "[example_plan]" "[example_sp_record]"]
    h1 h2 h3 v
  show ?thesis by blast
qed

text \<open>
  The claim as stated gives 0 to every absent monetary member and \<^verbatim>\<open>N/A\<close> to every
  absent text. In the savings plan of the example the upfront payment is absent and the
  record holds the text \<^verbatim>\<open>N/A\<close>, not 0; in the compute reservation the currency code is
  absent and the record holds \<^verbatim>\<open>USD\<close>, not \<^verbatim>\<open>N/A\<close>.
\<close>

theorem defaults_counterexample:
  "dict_get example_plan ''upfrontPaymentAmount'' = None \<and>
   sp_entry ''us-east-1'' example_plan = Inr example_sp_record \<and>
   dict_get example_sp_record ''UpfrontPayment'' = Some (PStr ''N/A'') \<and>
   dict_get example_sp_record ''UpfrontPayment'' \<noteq> Some (PInt 0) \<and>
   dict_get example_ri ''CurrencyCode'' = None \<and>
   ec2_entry ''us-east-1'' example_ri = Inr (example_ec2_record ''us-east-1'') \<and>
   dict_get (example_ec2_record ''us-east-1'') ''CurrencyCode'' = Some (PStr ''USD'') \<and>
   dict_get (example_ec2_record ''us-east-1'') ''CurrencyCode'' \<noteq> Some (PStr ''N/A'')"
  by (simp add: sp_entry_example ec2_entry_example)
    (simp add: dict_get_def example_plan_def example_ri_def example_sp_record_def
      example_ec2_record_def)

section \<open>Claim C4: what a fetcher does when its listing raises\<close>

text \<open>
  Claim C4, as the code has it. When the listing of a fetcher raises a \<^verbatim>\<open>ClientError\<close>
  whose code is \<^verbatim>\<open>UnauthorizedOperation\<close> or \<^verbatim>\<open>AccessDenied\<close>, the fetcher returns
  the empty list and prints nothing; when the \<^verbatim>\<open>ClientError\<close> has any other code, the
  fetcher prints one line, with the category, the region and the text of the error, and
  returns the empty list. An exception that is not a \<^verbatim>\<open>ClientError\<close> is not caught:
  it leaves the fetcher. In each case the fetcher has issued its listing once.
\<close>

theorem fetcher_error_policy:
  "(describe_reserved_instances session region = Inl (ClientError code1 text1) \<longrightarrow>
      get_ec2_reserved_instances session region st =
        (Inr [],
         if code1 = ''UnauthorizedOperation'' \<or> code1 = ''AccessDenied''
         then issue (DescribeReservedInstances region) st
         else print (''Error retrieving EC2 Reserved Instances in '' @ region @ '': '' @ text1)
                (issue (DescribeReservedInstances region) st))) \<and>
   (describe_reserved_db_instances session region = Inl (ClientError code2 text2) \<longrightarrow>
      get_rds_reserved_instances session region st =
        (Inr [],
         if code2 = ''UnauthorizedOperation'' \<or> code2 = ''AccessDenied''
         then issue (DescribeReservedDBInstances region) st
         else print (''Error retrieving RDS Reserved Instances in '' @ region @ '': '' @ text2)
                (issue (DescribeReservedDBInstances region) st))) \<and>
   (describe_savings_plans session region = Inl (ClientError code3 text3) \<longrightarrow>
      get_savings_plans session region st =
        (Inr [],
         if code3 = ''UnauthorizedOperation'' \<or> code3 = ''AccessDenied''
         then issue (DescribeSavingsPlans region) st
         else print (''Error retrieving Savings Plans in '' @ region @ '': '' @ text3)
                (issue (DescribeSavingsPlans region) st))) \<and>
   (describe_reserved_instances session' region = Inl e1 \<and> \<not> is_client_error e1 \<longrightarrow>
      get_ec2_reserved_instances session' region st =
        (Inl e1, issue (DescribeReservedInstances region) st)) \<and>
   (describe_reserved_db_instances session' region = Inl e2 \<and> \<not> is_client_error e2 \<longrightarrow>
      get_rds_reserved_instances session' region st =
        (Inl e2, issue (DescribeReservedDBInstances region) st)) \<and>
   (describe_savings_plans session' region = Inl e3 \<and> \<not> is_client_error e3 \<longrightarrow>
      get_savings_plans session' region st =
        (Inl e3, issue (DescribeSavingsPlans region) st))"
proof (intro conjI impI)
  assume "describe_reserved_instances session region = Inl (ClientError code1 text1)"
  then show "get_ec2_reserved_instances session region st =
      (Inr [],
       if code1 = ''UnauthorizedOperation'' \<or> code1 = ''AccessDenied''
       then issue (DescribeReservedInstances region) st
       else print (''Error retrieving EC2 Reserved Instances in '' @ region @ '': '' @ text1)
              (issue (DescribeReservedInstances region) st))"
    by (simp add: get_ec2_reserved_instances_def member_def handle_client_error_caught)
next
  assume "describe_reserved_db_instances session region = Inl (ClientError code2 text2)"
  then show "get_rds_reserved_instances session region st =
      (Inr [],
       if code2 = ''UnauthorizedOperation'' \<or> code2 = ''AccessDenied''
       then issue (DescribeReservedDBInstances region) st
       else print (''Error retrieving RDS Reserved Instances in '' @ region @ '': '' @ text2)
              (issue (DescribeReservedDBInstances region) st))"
    by (simp add: get_rds_reserved_instances_def member_def handle_client_error_caught)
next
  assume "describe_savings_plans session region = Inl (ClientError code3 text3)"
  then show "get_savings_plans session region st =
      (Inr [],
       if code3 = ''UnauthorizedOperation'' \<or> code3 = ''AccessDenied''
       then issue (DescribeSavingsPlans region) st
       else print (''Error retrieving Savings Plans in '' @ region @ '': '' @ text3)
              (issue (DescribeSavingsPlans region) st))"
    by (simp add: get_savings_plans_def member_def handle_client_error_caught)
next
  assume "describe_reserved_instances session' region = Inl e1 \<and> \<not> is_client_error e1"
  then show "get_ec2_reserved_instances session' region st =
      (Inl e1, issue (DescribeReservedInstances region) st)"
    by (simp add: get_ec2_reserved_instances_def member_def handle_client_error_passed)
next
  assume "describe_reserved_db_instances session' region = Inl e2 \<and> \<not> is_client_error e2"
  then show "get_rds_reserved_instances session' region st =
      (Inl e2, issue (DescribeReservedDBInstances region) st)"
    by (simp add: get_rds_reserved_instances_def member_def handle_client_error_passed)
next
  assume "describe_savings_plans session' region = Inl e3 \<and> \<not> is_client_error e3"
  then show "get_savings_plans session' region st =
      (Inl e3, issue (DescribeSavingsPlans region) st)"
    by (simp add: get_savings_plans_def member_def handle_client_error_passed)
qed

text \<open>
  The theorem in a session where the provider refuses the three listings (two with an
  authorization code, one with another code) and in a session where no listing reaches
  the provider.
\<close>

theorem fetcher_error_policy_witness:
  "describe_reserved_instances refused_session ''us-east-1'' =
     Inl (ClientError ''UnauthorizedOperation'' ''not authorized'') \<and>
   get_ec2_reserved_instances refused_session ''us-east-1'' initial_state =
     (Inr [], \<lparr>stdout = [], calls = [DescribeReservedInstances ''us-east-1'']\<rparr>) \<and>
   describe_reserved_db_instances refused_session ''us-east-1'' =
     Inl (ClientError ''AccessDenied'' ''access denied'') \<and>
   get_rds_reserved_instances refused_session ''us-east-1'' initial_state =
     (Inr [], \<lparr>stdout = [], calls = [DescribeReservedDBInstances ''us-east-1'']\<rparr>) \<and>
   describe_savings_plans refused_session ''us-east-1'' =
     Inl (ClientError ''InternalFailure'' ''internal failure'') \<and>
   get_savings_plans refused_session ''us-east-1'' initial_state =
     (Inr [],
      \<lparr>stdout = [''Error retrieving Savings Plans in us-east-1: internal failure''],
       calls = [DescribeSavingsPlans ''us-east-1'']\<rparr>) \<and>
   describe_reserved_instances unreachable_session ''us-east-1'' = Inl NoCredentialsError \<and>
   \<not> is_client_error NoCredentialsError \<and>
   get_ec2_reserved_instances unreachable_session ''us-east-1'' initial_state =
     (Inl NoCredentialsError,
      \<lparr>stdout = [], calls = [DescribeReservedInstances ''us-east-1'']\<rparr>) \<and>
   describe_reserved_db_instances unreachable_session ''us-east-1'' =
     Inl (OtherError ''ConnectTimeoutError'') \<and>
   \<not> is_client_error (OtherError ''ConnectTimeoutError'') \<and>
   get_rds_reserved_instances unreachable_session ''us-east-1'' initial_state =
     (Inl (OtherError ''ConnectTimeoutError''),
      \<lparr>stdout = [], calls = [DescribeReservedDBInstances ''us-east-1'']\<rparr>) \<and>
   describe_savings_plans unreachable_session ''us-east-1'' =
     Inl (OtherError ''EndpointConnectionError'') \<and>
   \<not> is_client_error (OtherError ''EndpointConnectionError'') \<and>
   get_savings_plans unreachable_session ''us-east-1'' initial_state =
     (Inl (OtherError ''EndpointConnectionError''),
      \<lparr>stdout = [], calls = [DescribeSavingsPlans ''us-east-1'']\<rparr>)"
  using fetcher_error_policy
    [of refused_session "''us-east-1''" "''UnauthorizedOperation''" "''not authorized''"
      initial_state "''AccessDenied''" "''access denied''"
      "''InternalFailure''" "''internal failure''"
      unreachable_session NoCredentialsError "OtherError ''ConnectTimeoutError''"
      "OtherError ''EndpointConnectionError''"]
  by (simp add: refused_session_def unreachable_session_def initial_state_def print_def
      issue_def)

text \<open>
  The claim as stated says that no exception leaves a fetcher. The handler of each
  fetcher names \<^verbatim>\<open>ClientError\<close> only: when the endpoint cannot be reached, the
  exception of the listing leaves \<^verbatim>\<open>get_savings_plans\<close>.
\<close>

theorem fetcher_exception_propagates_counterexample:
  "fst (get_savings_plans unreachable_session ''eu-west-3'' initial_state) =
     Inl (OtherError ''EndpointConnectionError'') \<and>
   fst (get_savings_plans unreachable_session ''eu-west-3'' initial_state) \<noteq> Inr []"
  by (simp add: get_savings_plans_def unreachable_session_def member_def
      handle_client_error_def)

section \<open>Claim C5: the fallback of the region enumerator\<close>



text \<open>
  An exception of the listing that is not a \<^verbatim>\<open>ClientError\<close> is not a failure reported
  by the provider; \<^verbatim>\<open>get_all_regions\<close> does not catch it.
\<close>

lemma get_all_regions_other_exception:
  assumes "describe_regions session = Inl e" and "\<not> is_client_error e"
  shows "get_all_regions session st = (Inl e, issue DescribeRegions st)"
  using assms by (cases e) (simp_all add: get_all_regions_def member_def)

section \<open>Claim C6: format_datetime\<close>

lemma strftime_fixed_format:
  assumes "valid_datetime d" and "1000 \<le> dt_year d"
  shows "fixed_format ''YYYY-MM-DD HH:MM:SS UTC'' (strftime d ''%Y-%m-%d %H:%M:%S UTC'')"
proof -
  from assms have "1000 \<le> dt_year d" "dt_year d < 10000" "dt_month d < 100" "dt_day d < 100"
    "dt_hour d < 100" "dt_minute d < 100" "dt_second d < 100"
    by (simp_all add: valid_datetime_def)
  then show ?thesis
    unfolding strftime_utc by (simp add: zfill2 str_nat4 is_digit_digit)
qed

text \<open>
  Claim C6, as the code has it: \<^verbatim>\<open>format_datetime\<close> returns a non-empty text unchanged;
  it returns the text \<^verbatim>\<open>N/A\<close> for the absent value \<^verbatim>\<open>None\<close> and for the empty text;
  it renders a timestamp of a year from 1000 to 9999 as the year, two digits of the month
  and two of the day joined by hyphens, a space, two digits each of hour, minute and
  second joined by colons, and the suffix \<^verbatim>\<open> UTC\<close>, which has the shape
  \<^verbatim>\<open>YYYY-MM-DD HH:MM:SS UTC\<close>.
\<close>

theorem format_datetime_cases:
  "(s \<noteq> [] \<longrightarrow> format_datetime (PStr s) = Inr (PStr s)) \<and>
   format_datetime (PStr []) = Inr (PStr ''N/A'') \<and>
   format_datetime PNone = Inr (PStr ''N/A'') \<and>
   (valid_datetime d \<and> 1000 \<le> dt_year d \<longrightarrow>
      format_datetime (PDatetime d) =
        Inr (PStr (str_nat (dt_year d) @ ''-'' @ zfill 2 (str_nat (dt_month d)) @ ''-''
                   @ zfill 2 (str_nat (dt_day d)) @ '' '' @ zfill 2 (str_nat (dt_hour d)) @ '':''
                   @ zfill 2 (str_nat (dt_minute d)) @ '':'' @ zfill 2 (str_nat (dt_second d))
                   @ '' UTC'')) \<and>
      fixed_format ''YYYY-MM-DD HH:MM:SS UTC''
        (str_nat (dt_year d) @ ''-'' @ zfill 2 (str_nat (dt_month d)) @ ''-''
         @ zfill 2 (str_nat (dt_day d)) @ '' '' @ zfill 2 (str_nat (dt_hour d)) @ '':''
         @ zfill 2 (str_nat (dt_minute d)) @ '':'' @ zfill 2 (str_nat (dt_second d))
         @ '' UTC''))"
proof (intro conjI impI)
  show "format_datetime (PStr s) = Inr (PStr s)" if "s \<noteq> []"
    using that by (simp add: format_datetime_def)
  show "format_datetime (PStr []) = Inr (PStr ''N/A'')"
    by (simp add: format_datetime_def)
  show "format_datetime PNone = Inr (PStr ''N/A'')"
    by (simp add: format_datetime_def)
next
  assume "valid_datetime d \<and> 1000 \<le> dt_year d"
  show "format_datetime (PDatetime d) =
        Inr (PStr (str_nat (dt_year d) @ ''-'' @ zfill 2 (str_nat (dt_month d)) @ ''-''
                   @ zfill 2 (str_nat (dt_day d)) @ '' '' @ zfill 2 (str_nat (dt_hour d)) @ '':''
                   @ zfill 2 (str_nat (dt_minute d)) @ '':'' @ zfill 2 (str_nat (dt_second d))
                   @ '' UTC''))"
    by (simp only: format_datetime_def truthy.simps if_True pyval.case strftime_utc)
next
  assume "valid_datetime d \<and> 1000 \<le> dt_year d"
  then show "fixed_format ''YYYY-MM-DD HH:MM:SS UTC''
        (str_nat (dt_year d) @ ''-'' @ zfill 2 (str_nat (dt_month d)) @ ''-''
         @ zfill 2 (str_nat (dt_day d)) @ '' '' @ zfill 2 (str_nat (dt_hour d)) @ '':''
         @ zfill 2 (str_nat (dt_minute d)) @ '':'' @ zfill 2 (str_nat (dt_second d))
         @ '' UTC'')"
    using strftime_fixed_format [of d] by (simp only: strftime_utc)
qed

text \<open>The theorem at the text \<^verbatim>\<open>2024-01-01\<close> and at 7 March 2024, 09:05:00.\<close>

theorem format_datetime_cases_witness:
  "''2024-01-01'' \<noteq> [] \<and>
   format_datetime (PStr ''2024-01-01'') = Inr (PStr ''2024-01-01'') \<and>
   format_datetime (PStr []) = Inr (PStr ''N/A'') \<and>
   format_datetime PNone = Inr (PStr ''N/A'') \<and>
   (valid_datetime example_datetime \<and> 1000 \<le> dt_year example_datetime) \<and>
   format_datetime (PDatetime example_datetime) = Inr (PStr ''2024-03-07 09:05:00 UTC'') \<and>
   fixed_format ''YYYY-MM-DD HH:MM:SS UTC'' ''2024-03-07 09:05:00 UTC''"
proof -
  have y: "1000 \<le> dt_year example_datetime"
    by (simp add: example_datetime_def)
  from format_datetime_cases [of "''2024-01-01''" example_datetime]
    example_datetime_valid y
  show ?thesis by (simp only: example_datetime_text) simp
qed

text \<open>
  The claim as stated says that every text is returned unchanged and every date is
  rendered in the fixed format. The empty text is false in \<^verbatim>\<open>if dt:\<close>, so it is returned
  as \<^verbatim>\<open>N/A\<close>. The first day of the year 999 is rendered with a year of three digits,
  which is not of the fixed format.
\<close>

theorem format_datetime_counterexample:
  "format_datetime (PStr '''') = Inr (PStr ''N/A'') \<and>
   format_datetime (PStr '''') \<noteq> Inr (PStr '''') \<and>
   valid_datetime early_datetime \<and>
   format_datetime (PDatetime early_datetime) = Inr (PStr ''999-01-01 00:00:00 UTC'') \<and>
   \<not> fixed_format ''YYYY-MM-DD HH:MM:SS UTC'' ''999-01-01 00:00:00 UTC''"
proof -
  have "strftime early_datetime ''%Y-%m-%d %H:%M:%S UTC'' = ''999-01-01 00:00:00 UTC''"
    unfolding strftime_utc
    by (simp add: early_datetime_def zfill_def str_nat_big str_nat_small digit_def)
  then show ?thesis
    by (simp add: format_datetime_def valid_datetime_def is_digit_def del: strftime.simps)
      (simp add: early_datetime_def)
qed

section \<open>Claim C7: the counts of the summary\<close>

lemma type_count_filter:
  assumes "\<forall>r \<in> set rs. \<exists>v. dict_get r ''Type'' = Some v"
  shows "type_count t rs = Inr (length (filter (has_type t) rs))"
  using assms
proof (induction rs)
  case Nil
  then show ?case by simp
next
  case (Cons r rs)
  then obtain v where "dict_get r ''Type'' = Some v" by auto
  with Cons show ?case by (simp add: subscript_def has_type_def)
qed

lemma partition_length:
  assumes "\<forall>r \<in> set rs. has_type a r \<or> has_type b r \<or> has_type c r"
    and "a \<noteq> b" "a \<noteq> c" "b \<noteq> c"
  shows "length (filter (has_type a) rs) + length (filter (has_type b) rs)
           + length (filter (has_type c) rs) = length rs"
  using assms(1)
proof (induction rs)
  case Nil
  then show ?case by simp
next
  case (Cons r rs)
  then have "has_type a r \<or> has_type b r \<or> has_type c r" by simp
  with Cons assms(2-) show ?case by (auto simp: has_type_def)
qed

text \<open>
  Claim C7: for the aggregated list of a run of the loop, \<^verbatim>\<open>print_summary\<close> raises
  nothing and prints seven lines: the rule, the title, the rule, and four lines that end
  in decimal texts. The three texts printed for the categories denote the numbers of
  records of the three types, and their sum is the number that the text printed as the
  total denotes, the length of the list.
\<close>

theorem summary_counts_sum_to_total:
  assumes "main_collect session regions [] {} st =
             (Inr (all_reservations, regions_with_data), st')"
  shows "\<exists>ec2_count rds_count sp_count total.
           print_summary all_reservations s =
             (Inr (),
              s\<lparr>stdout := stdout s @
                 [CHR 0x0A # replicate 80 CHR ''='', ''SUMMARY'', replicate 80 CHR ''='',
                  ''EC2 Reserved Instances: '' @ ec2_count,
                  ''RDS Reserved Instances: '' @ rds_count,
                  ''Savings Plans: '' @ sp_count,
                  ''Total Reservations: '' @ total]\<rparr>) \<and>
           decimal ec2_count \<and> decimal rds_count \<and> decimal sp_count \<and> decimal total \<and>
           read_nat ec2_count =
             length (filter (has_type ''EC2 Reserved Instance'') all_reservations) \<and>
           read_nat rds_count =
             length (filter (has_type ''RDS Reserved Instance'') all_reservations) \<and>
           read_nat sp_count = length (filter (has_type ''Savings Plan'') all_reservations) \<and>
           read_nat total = length all_reservations \<and>
           read_nat ec2_count + read_nat rds_count + read_nat sp_count = read_nat total"
proof -
  let ?n = "\<lambda>t. length (filter (has_type t) all_reservations)"
  have types: "\<forall>r \<in> set all_reservations.
      has_type ''EC2 Reserved Instance'' r \<or> has_type ''RDS Reserved Instance'' r
      \<or> has_type ''Savings Plan'' r"
    using main_collect_type [OF assms] by blast
  then have "\<forall>r \<in> set all_reservations. \<exists>v. dict_get r ''Type'' = Some v"
    by (auto simp: has_type_def)
  then have counts: "type_count t all_reservations = Inr (?n t)" for t
    by (rule type_count_filter)
  have total: "?n ''EC2 Reserved Instance'' + ?n ''RDS Reserved Instance'' + ?n ''Savings Plan''
      = length all_reservations"
    by (rule partition_length [OF types]) simp_all
  have printed: "print_summary all_reservations s =
      (Inr (),
       s\<lparr>stdout := stdout s @
          [CHR 0x0A # replicate 80 CHR ''='', ''SUMMARY'', replicate 80 CHR ''='',
           ''EC2 Reserved Instances: '' @ str_nat (?n ''EC2 Reserved Instance''),
           ''RDS Reserved Instances: '' @ str_nat (?n ''RDS Reserved Instance''),
           ''Savings Plans: '' @ str_nat (?n ''Savings Plan''),
           ''Total Reservations: '' @ str_nat (length all_reservations)]\<rparr>)"
    by (simp add: print_summary_def counts summary_lines_def banner_def print_def)
  show ?thesis
    apply (rule exI [of _ "str_nat (?n ''EC2 Reserved Instance'')"])
    apply (rule exI [of _ "str_nat (?n ''RDS Reserved Instance'')"])
    apply (rule exI [of _ "str_nat (?n ''Savings Plan'')"])
    apply (rule exI [of _ "str_nat (length all_reservations)"])
    using printed total by (simp add: read_nat_str_nat decimal_str_nat)
qed

text \<open>
  The theorem in the example session, where the summary prints two records of each
  category and six in all.
\<close>

theorem summary_counts_sum_to_total_witness:
  "main_collect example_session example_regions [] {} initial_state =
     (Inr (example_all, {''us-west-2'', ''us-east-1''}), example_final_state) \<and>
   (\<exists>ec2_count rds_count sp_count total.
      print_summary example_all example_final_state =
        (Inr (),
         example_final_state\<lparr>stdout := stdout example_final_state @
            [CHR 0x0A # replicate 80 CHR ''='', ''SUMMARY'', replicate 80 CHR ''='',
             ''EC2 Reserved Instances: '' @ ec2_count,
             ''RDS Reserved Instances: '' @ rds_count,
             ''Savings Plans: '' @ sp_count,
             ''Total Reservations: '' @ total]\<rparr>) \<and>
      decimal ec2_count \<and> decimal rds_count \<and> decimal sp_count \<and> decimal total \<and>
      read_nat ec2_count = length (filter (has_type ''EC2 Reserved Instance'') example_all) \<and>
      read_nat rds_count = length (filter (has_type ''RDS Reserved Instance'') example_all) \<and>
      read_nat sp_count = length (filter (has_type ''Savings Plan'') example_all) \<and>
      read_nat total = length example_all \<and>
      read_nat ec2_count + read_nat rds_count + read_nat sp_count = read_nat total) \<and>
   print_summary example_all example_final_state =
     (Inr (),
      example_final_state\<lparr>stdout := stdout example_final_state @
         [CHR 0x0A # replicate 80 CHR ''='', ''SUMMARY'', replicate 80 CHR ''='',
          ''EC2 Reserved Instances: 2'', ''RDS Reserved Instances: 2'',
          ''Savings Plans: 2'', ''Total Reservations: 6'']\<rparr>) \<and>
   read_nat ''2'' + read_nat ''2'' + read_nat ''2'' = read_nat ''6'' \<and>
   read_nat ''6'' = length example_all"
proof -
  have counts: "type_count ''EC2 Reserved Instance'' example_all = Inr 2"
    "type_count ''RDS Reserved Instance'' example_all = Inr 2"
    "type_count ''Savings Plan'' example_all = Inr 2"
    "length example_all = 6"
    by (simp_all add: example_all_def example_ec2_record_def example_rds_record_def
        example_sp_record_def subscript_def dict_get_def)
  have printed: "print_summary example_all example_final_state =
     (Inr (),
      example_final_state\<lparr>stdout := stdout example_final_state @
         [CHR 0x0A # replicate 80 CHR ''='', ''SUMMARY'', replicate 80 CHR ''='',
          ''EC2 Reserved Instances: 2'', ''RDS Reserved Instances: 2'',
          ''Savings Plans: 2'', ''Total Reservations: 6'']\<rparr>)"
    by (simp add: print_summary_def counts summary_lines_def banner_def print_def
        str_nat_example)
  have reads: "read_nat ''2'' + read_nat ''2'' + read_nat ''2'' = read_nat ''6''"
    "read_nat ''6'' = length example_all"
    by (simp_all add: read_nat_def counts)
  from summary_counts_sum_to_total [OF main_collect_example, of example_final_state]
    main_collect_example printed reads
  show ?thesis by blast
qed

section \<open>Claim C8: the aggregated list is the concatenation of the fetched lists\<close>

text \<open>
  Claim C8: when the loop of \<^verbatim>\<open>main\<close> ends, the aggregated list is the concatenation,
  over the regions in the order they were scanned, of the list returned by the compute
  fetcher, then the list returned by the database fetcher, then the list returned by the
  savings plans fetcher for that region.
\<close>

theorem aggregated_is_concatenation:
  assumes "main_collect session regions [] {} st =
             (Inr (all_reservations, regions_with_data), st')"
  shows "all_reservations =
           concat (map (\<lambda>region.
             returned (get_ec2_reserved_instances session region s)
             @ returned (get_rds_reserved_instances session region s)
             @ returned (get_savings_plans session region s)) regions)"
  using main_collect_concat [OF assms, of s] by simp

text \<open>The theorem in the example session, scanned in the order us-west-2, us-east-1.\<close>

theorem aggregated_is_concatenation_witness:
  "main_collect example_session example_regions [] {} initial_state =
     (Inr (example_all, {''us-west-2'', ''us-east-1''}), example_final_state) \<and>
   example_all =
     concat (map (\<lambda>region.
       returned (get_ec2_reserved_instances example_session region initial_state)
       @ returned (get_rds_reserved_instances example_session region initial_state)
       @ returned (get_savings_plans example_session region initial_state)) example_regions) \<and>
   example_all =
     [example_ec2_record ''us-west-2''] @ [example_rds_record ''us-west-2'']
       @ [example_sp_record]
     @ [example_ec2_record ''us-east-1''] @ [example_rds_record ''us-east-1'']
       @ [example_sp_record]"
  using aggregated_is_concatenation [OF main_collect_example, of initial_state]
    main_collect_example
  by (simp add: example_all_def)

section \<open>Claim C9: the report file reads back as the list it was written from\<close>

text \<open>
  Claim C9: for every aggregated list, writing it with \<^verbatim>\<open>save_to_json\<close> and parsing the
  file yields a list of dictionaries with the same members in the same order as the
  list in memory, each timestamp being the text that \<^verbatim>\<open>str\<close> gives for it. When the
  file can be written, \<^verbatim>\<open>save_to_json\<close> writes the text of the encoder and reports the
  file name; the decoder reads the whole text, and what it returns is the list in memory
  with \<open>json_of_pyval\<close> applied to each value, which turns a timestamp into a text and
  leaves every other value as it is. The list is any list of Python dictionaries; the
  records that \<^verbatim>\<open>main\<close> collects are such dictionaries (lemma
  \<open>main_collect_keys_distinct\<close>).
\<close>

theorem save_to_json_round_trip:
  assumes "list_all python_dict all_reservations"
  shows "save_to_json all_reservations filename None s =
           (Some (encode_list all_reservations),
            print (CHR 0x0A # ''Report saved to: '' @ filename) s) \<and>
         json_loads (encode_list all_reservations) = Some (json_of_list all_reservations)"
proof -
  from assms have "list_all (\<lambda>d. distinct (map fst d)) all_reservations"
    and "list_all float_values all_reservations"
    by (simp_all add: python_dict_def list_all_iff)
  then have "json_loads (encode_list all_reservations) = Some (json_of_list all_reservations)"
    by (rule json_loads_encode_list)
  then show ?thesis by (simp add: save_to_json_def)
qed

theorem save_to_json_round_trip_witness:
  "list_all python_dict example_report \<and>
   save_to_json example_report ''aws_reservations_report.json'' None initial_state =
     (Some example_report_text,
      \<lparr>stdout = [CHR 0x0A # ''Report saved to: aws_reservations_report.json''],
       calls = []\<rparr>) \<and>
   json_loads example_report_text =
     Some (JArr
       [JObj
          [(''Type'', JStr ''Savings Plan''),
           (''Start'', JStr ''2024-03-07 09:05:00+00:00''),
           (''FixedPrice'', JFloat ''1.5''),
           (''InstanceCount'', JInt 2),
           (''Description'',
              JStr (''a '' @ quote # ''b'' @ quote # '' '' @ backslash # '' c'' @ CHR 0x0A # ''d'')),
           (''Scope'', JNull),
           (''Active'', JBool True),
           (''Delta'', JInt (- 3)),
           (''Rate'', JFloat ''1e-05'')],
        JObj []]) \<and>
   main_collect example_session example_regions [] {} initial_state =
     (Inr (example_all, {''us-west-2'', ''us-east-1''}), example_final_state) \<and>
   list_all python_dict example_all \<and>
   json_loads (encode_list example_all) = Some (json_of_list example_all)"
proof -
  have parsed: "json_of_list example_report =
      JArr
       [JObj
          [(''Type'', JStr ''Savings Plan''),
           (''Start'', JStr ''2024-03-07 09:05:00+00:00''),
           (''FixedPrice'', JFloat ''1.5''),
           (''InstanceCount'', JInt 2),
           (''Description'',
              JStr (''a '' @ quote # ''b'' @ quote # '' '' @ backslash # '' c'' @ CHR 0x0A # ''d'')),
           (''Scope'', JNull),
           (''Active'', JBool True),
           (''Delta'', JInt (- 3)),
           (''Rate'', JFloat ''1e-05'')],
        JObj []]"
    by (simp add: json_of_list_def json_of_record_def json_of_member_def example_report_def
        example_datetime_str)
  from save_to_json_round_trip [OF example_report_dicts,
      of "''aws_reservations_report.json''" initial_state]
  have first: "save_to_json example_report ''aws_reservations_report.json'' None initial_state =
     (Some example_report_text,
      \<lparr>stdout = [CHR 0x0A # ''Report saved to: aws_reservations_report.json''],
       calls = []\<rparr>)"
    and second: "json_loads example_report_text = Some (json_of_list example_report)"
    unfolding example_report_encoded by (simp_all add: print_def initial_state_def)
  from save_to_json_round_trip [OF example_all_dicts, of "''aws_reservations_report.json''" initial_state]
  have third: "json_loads (encode_list example_all) = Some (json_of_list example_all)"
    by simp
  from first second third show ?thesis
    unfolding parsed by (simp add: example_report_dicts example_all_dicts main_collect_example)
qed

section \<open>Claim C10: the Type of every record is one of three literals\<close>

text \<open>
  Claim C10: every record in a list that a fetcher returns holds under \<^verbatim>\<open>Type\<close> the
  literal of that fetcher: \<^verbatim>\<open>EC2 Reserved Instance\<close>, \<^verbatim>\<open>RDS Reserved Instance\<close> or
  \<^verbatim>\<open>Savings Plan\<close>. So every record of the aggregated list passes exactly one of the
  three comparisons of \<^verbatim>\<open>print_summary\<close>.
\<close>

theorem record_types:
  "(fst (get_ec2_reserved_instances session region st) = Inr rs1 \<and> r1 \<in> set rs1 \<longrightarrow>
      dict_get r1 ''Type'' = Some (PStr ''EC2 Reserved Instance'')) \<and>
   (fst (get_rds_reserved_instances session region st) = Inr rs2 \<and> r2 \<in> set rs2 \<longrightarrow>
      dict_get r2 ''Type'' = Some (PStr ''RDS Reserved Instance'')) \<and>
   (fst (get_savings_plans session region st) = Inr rs3 \<and> r3 \<in> set rs3 \<longrightarrow>
      dict_get r3 ''Type'' = Some (PStr ''Savings Plan'')) \<and>
   (main_collect session regions [] {} st = (Inr (all_reservations, regions_with_data), st')
      \<and> r \<in> set all_reservations \<longrightarrow>
      (has_type ''EC2 Reserved Instance'' r \<and> \<not> has_type ''RDS Reserved Instance'' r
         \<and> \<not> has_type ''Savings Plan'' r) \<or>
      (has_type ''RDS Reserved Instance'' r \<and> \<not> has_type ''EC2 Reserved Instance'' r
         \<and> \<not> has_type ''Savings Plan'' r) \<or>
      (has_type ''Savings Plan'' r \<and> \<not> has_type ''EC2 Reserved Instance'' r
         \<and> \<not> has_type ''RDS Reserved Instance'' r))"
proof (intro conjI impI)
  assume "fst (get_ec2_reserved_instances session region st) = Inr rs1 \<and> r1 \<in> set rs1"
  then show "dict_get r1 ''Type'' = Some (PStr ''EC2 Reserved Instance'')"
    using get_ec2_reserved_instances_type [of session region st rs1 r1]
    by (simp add: has_type_def)
next
  assume "fst (get_rds_reserved_instances session region st) = Inr rs2 \<and> r2 \<in> set rs2"
  then show "dict_get r2 ''Type'' = Some (PStr ''RDS Reserved Instance'')"
    using get_rds_reserved_instances_type [of session region st rs2 r2]
    by (simp add: has_type_def)
next
  assume "fst (get_savings_plans session region st) = Inr rs3 \<and> r3 \<in> set rs3"
  then show "dict_get r3 ''Type'' = Some (PStr ''Savings Plan'')"
    using get_savings_plans_type [of session region st rs3 r3]
    by (simp add: has_type_def)
next
  assume "main_collect session regions [] {} st
            = (Inr (all_reservations, regions_with_data), st')
          \<and> r \<in> set all_reservations"
  then have "has_type ''EC2 Reserved Instance'' r \<or> has_type ''RDS Reserved Instance'' r
      \<or> has_type ''Savings Plan'' r"
    using main_collect_type [of session regions st all_reservations regions_with_data st' r]
    by simp
  then show "(has_type ''EC2 Reserved Instance'' r \<and> \<not> has_type ''RDS Reserved Instance'' r
         \<and> \<not> has_type ''Savings Plan'' r) \<or>
      (has_type ''RDS Reserved Instance'' r \<and> \<not> has_type ''EC2 Reserved Instance'' r
         \<and> \<not> has_type ''Savings Plan'' r) \<or>
      (has_type ''Savings Plan'' r \<and> \<not> has_type ''EC2 Reserved Instance'' r
         \<and> \<not> has_type ''RDS Reserved Instance'' r)"
    using has_type_exclusive [of r] by blast
qed

text \<open>The theorem at the records of the example session.\<close>

theorem record_types_witness:
  "(fst (get_ec2_reserved_instances example_session ''us-east-1'' initial_state) =
      Inr [example_ec2_record ''us-east-1''] \<and>
    example_ec2_record ''us-east-1'' \<in> set [example_ec2_record ''us-east-1'']) \<and>
   dict_get (example_ec2_record ''us-east-1'') ''Type'' = Some (PStr ''EC2 Reserved Instance'') \<and>
   (fst (get_rds_reserved_instances example_session ''us-east-1'' initial_state) =
      Inr [example_rds_record ''us-east-1''] \<and>
    example_rds_record ''us-east-1'' \<in> set [example_rds_record ''us-east-1'']) \<and>
   dict_get (example_rds_record ''us-east-1'') ''Type'' = Some (PStr ''RDS Reserved Instance'') \<and>
   (fst (get_savings_plans example_session ''us-east-1'' initial_state) =
      Inr [example_sp_record] \<and>
    example_sp_record \<in> set [example_sp_record]) \<and>
   dict_get example_sp_record ''Type'' = Some (PStr ''Savings Plan'') \<and>
   (main_collect example_session example_regions [] {} initial_state =
      (Inr (example_all, {''us-west-2'', ''us-east-1''}), example_final_state) \<and>
    example_sp_record \<in> set example_all) \<and>
   has_type ''Savings Plan'' example_sp_record \<and>
   \<not> has_type ''EC2 Reserved Instance'' example_sp_record \<and>
   \<not> has_type ''RDS Reserved Instance'' example_sp_record"
proof -
  have h1: "fst (get_ec2_reserved_instances example_session ''us-east-1'' initial_state) =
      Inr [example_ec2_record ''us-east-1''] \<and>
    example_ec2_record ''us-east-1'' \<in> set [example_ec2_record ''us-east-1'']"
    by (simp add: get_ec2_reserved_instances_example)
  have h2: "fst (get_rds_reserved_instances example_session ''us-east-1'' initial_state) =
      Inr [example_rds_record ''us-east-1''] \<and>
    example_rds_record ''us-east-1'' \<in> set [example_rds_record ''us-east-1'']"
    by (simp add: get_rds_reserved_instances_example)
  have h3: "fst (get_savings_plans example_session ''us-east-1'' initial_state) =
      Inr [example_sp_record] \<and>
    example_sp_record \<in> set [example_sp_record]"
    by (simp add: get_savings_plans_example)
  have h4: "main_collect example_session example_regions [] {} initial_state =
      (Inr (example_all, {''us-west-2'', ''us-east-1''}), example_final_state) \<and>
    example_sp_record \<in> set example_all"
    by (simp add: main_collect_example) (simp add: example_all_def)
  have t: "has_type ''Savings Plan'' example_sp_record"
    by (simp add: has_type_def dict_get_def example_sp_record_def)
  note inst = record_types [of example_session "''us-east-1''" initial_state
      "[example_ec2_record ''us-east-1'']" "example_ec2_record ''us-east-1''"
      "[example_rds_record ''us-east-1'']" "example_rds_record ''us-east-1''"
      "[example_sp_record]" example_sp_record
      example_regions example_all "{''us-west-2'', ''us-east-1''}" example_final_state
      example_sp_record]
  from inst h1 h2 h3 h4 t show ?thesis by blast
qed

end
